theory Spec2Isabelle
  imports Main
begin

section \<open>JavaScript string primitives used by the booking backend\<close>

text \<open>
  Strings are lists of 8-bit characters; the model covers ASCII input. Numbers that the
  backend only ever uses as integers (hours, counters, occupant counts) are \<open>int\<close>.
\<close>

definition is_digit :: "char \<Rightarrow> bool" where
  "is_digit c = (c \<in> set ''0123456789'')"

definition is_lower :: "char \<Rightarrow> bool" where
  "is_lower c = (c \<in> set ''abcdefghijklmnopqrstuvwxyz'')"

definition is_upper :: "char \<Rightarrow> bool" where
  "is_upper c = (c \<in> set ''ABCDEFGHIJKLMNOPQRSTUVWXYZ'')"

text \<open>The class \<open>\w\<close> of regular expressions: letters, digits and the underscore.\<close>

definition is_word :: "char \<Rightarrow> bool" where
  "is_word c = (is_lower c \<or> is_upper c \<or> is_digit c \<or> c = CHR ''_'')"

text \<open>The class \<open>\s\<close>: space, tab, line feed, vertical tab, form feed, carriage return.\<close>

definition is_space :: "char \<Rightarrow> bool" where
  "is_space c = (c \<in> set [CHR '' '', CHR 0x09, CHR 0x0A, CHR 0x0B, CHR 0x0C, CHR 0x0D])"

definition lower_char :: "char \<Rightarrow> char" where
  "lower_char c =
     (case map_of (zip ''ABCDEFGHIJKLMNOPQRSTUVWXYZ'' ''abcdefghijklmnopqrstuvwxyz'') c of
        Some l \<Rightarrow> l
      | None \<Rightarrow> c)"

definition toLowerCase :: "string \<Rightarrow> string" where
  "toLowerCase s = map lower_char s"

definition trim :: "string \<Rightarrow> string" where
  "trim s = rev (dropWhile is_space (rev (dropWhile is_space s)))"

text \<open>\<open>hay.includes(needle)\<close>: the needle occurs as a contiguous substring.\<close>

fun str_includes :: "string \<Rightarrow> string \<Rightarrow> bool" where
  "str_includes [] needle = (needle = [])"
| "str_includes (c # cs) needle =
     (take (length needle) (c # cs) = needle \<or> str_includes cs needle)"

text \<open>\<open>s.split(sep)\<close> for a one-character separator.\<close>

fun split_on :: "char \<Rightarrow> string \<Rightarrow> string list" where
  "split_on sep [] = [[]]"
| "split_on sep (c # cs) =
     (if c = sep then [] # split_on sep cs
      else (case split_on sep cs of
              [] \<Rightarrow> [[c]]
            | w # ws \<Rightarrow> (c # w) # ws))"

text \<open>\<open>parts.join(sep)\<close>.\<close>

fun join :: "string \<Rightarrow> string list \<Rightarrow> string" where
  "join sep [] = []"
| "join sep [w] = w"
| "join sep (w # v # ws) = w @ sep @ join sep (v # ws)"

definition digit_char :: "nat \<Rightarrow> char" where
  "digit_char d = ''0123456789'' ! (d mod 10)"

text \<open>Decimal rendering of a number, as \<open>n.toString()\<close> and template literals do.\<close>

fun show_nat :: "nat \<Rightarrow> string" where
  "show_nat n = (if n < 10 then [digit_char n] else show_nat (n div 10) @ [digit_char n])"

declare show_nat.simps [simp del]

definition show_int :: "int \<Rightarrow> string" where
  "show_int i = (if i < 0 then CHR ''-'' # show_nat (nat (- i)) else show_nat (nat i))"

definition padStart :: "nat \<Rightarrow> char \<Rightarrow> string \<Rightarrow> string" where
  "padStart n c s = replicate (n - length s) c @ s"

definition digit_val :: "char \<Rightarrow> nat" where
  "digit_val c = (case map_of (zip ''0123456789'' [0 ..< 10]) c of Some d \<Rightarrow> d | None \<Rightarrow> 0)"

text \<open>The value of a run of decimal digits, most significant first.\<close>

definition digits_val :: "string \<Rightarrow> nat" where
  "digits_val ds = foldl (\<lambda>acc c. 10 * acc + digit_val c) 0 ds"

text \<open>
  \<open>parseInt(s, 10)\<close>: leading white space is skipped, one sign is accepted, then the
  longest run of digits is read; with no digit the result is \<open>NaN\<close>, here \<open>None\<close>.
\<close>

definition parseInt :: "string \<Rightarrow> int option" where
  "parseInt s =
     (let t = dropWhile is_space s;
          neg = (t \<noteq> [] \<and> hd t = CHR ''-'');
          u = (if t \<noteq> [] \<and> (hd t = CHR ''-'' \<or> hd t = CHR ''+'') then tl t else t);
          ds = takeWhile is_digit u
      in if ds = [] then None
         else Some (if neg then - int (digits_val ds) else int (digits_val ds)))"

text \<open>String comparison \<open>a < b\<close> and \<open>a <= b\<close>: lexicographic on character codes.\<close>

fun js_str_less :: "string \<Rightarrow> string \<Rightarrow> bool" where
  "js_str_less [] [] = False"
| "js_str_less [] (y # ys) = True"
| "js_str_less (x # xs) [] = False"
| "js_str_less (x # xs) (y # ys) =
     (if x = y then js_str_less xs ys else (of_char x :: nat) < of_char y)"

definition js_str_le :: "string \<Rightarrow> string \<Rightarrow> bool" where
  "js_str_le a b = (a = b \<or> js_str_less a b)"

section \<open>Time-slot generator\<close>

text \<open>
  \<^verbatim>\<open>
  function hoursBetween(startHHMM, endHHMM) {
    const s = parseInt(startHHMM.split(":")[0], 10);
    const e = parseInt(endHHMM.split(":")[0], 10);
    const arr = [];
    for (let h = s; h <= e; h++) arr.push(h.toString().padStart(2, "0") + ":00");
    return arr;
  }
  \<close>
  A comparison with \<open>NaN\<close> is false, so an unreadable hour gives the empty list.
\<close>

definition hour_label :: "int \<Rightarrow> string" where
  "hour_label h = padStart 2 (CHR ''0'') (show_int h) @ '':00''"

definition hour_of :: "string \<Rightarrow> int option" where
  "hour_of hhmm = parseInt (hd (split_on (CHR '':'') hhmm))"

definition hoursBetween :: "string \<Rightarrow> string \<Rightarrow> string list" where
  "hoursBetween startHHMM endHHMM =
     (case (hour_of startHHMM, hour_of endHHMM) of
        (Some s, Some e) \<Rightarrow> map hour_label [s .. e]
      | _ \<Rightarrow> [])"

section \<open>Regular expressions\<close>

text \<open>
  The patterns of the backend use character classes, \<open>\b\<close>, anchors, sequence,
  alternation and greedy repetition. A matcher state is the character before the current
  position (for \<open>\b\<close>) and the rest of the input. \<open>ends r st\<close> lists, in the order a
  backtracking matcher tries them, the states in which a match of \<open>r\<close> begun at \<open>st\<close> can
  end. Every repeated sub-pattern of this program consumes at least one character, so an
  iteration is required to advance and the length of the input bounds their number.
\<close>

datatype regex =
    Eps
  | Cls "char \<Rightarrow> bool"
  | WordB
  | Bol
  | Eol
  | Seq regex regex
  | Alt regex regex
  | Rep nat "nat option" regex

type_synonym mstate = "char option \<times> string"

fun iter :: "(mstate \<Rightarrow> mstate list) \<Rightarrow> nat \<Rightarrow> nat option \<Rightarrow> nat \<Rightarrow> mstate \<Rightarrow> mstate list" where
  "iter f lo hi 0 st = (if lo = 0 then [st] else [])"
| "iter f lo hi (Suc k) st =
     (if hi = Some 0 then []
      else concat (map (\<lambda>st'. if length (snd st') < length (snd st)
                                then iter f (lo - 1) (map_option (\<lambda>h. h - 1) hi) k st'
                                else [])
                       (f st)))
     @ (if lo = 0 then [st] else [])"

definition word_before :: "char option \<Rightarrow> bool" where
  "word_before prev = (case prev of None \<Rightarrow> False | Some c \<Rightarrow> is_word c)"

definition word_at :: "string \<Rightarrow> bool" where
  "word_at rest = (case rest of [] \<Rightarrow> False | c # _ \<Rightarrow> is_word c)"

fun ends :: "regex \<Rightarrow> mstate \<Rightarrow> mstate list" where
  "ends Eps st = [st]"
| "ends (Cls P) st =
     (case snd st of [] \<Rightarrow> [] | c # cs \<Rightarrow> if P c then [(Some c, cs)] else [])"
| "ends WordB st = (if word_before (fst st) \<noteq> word_at (snd st) then [st] else [])"
| "ends Bol st = (if fst st = None then [st] else [])"
| "ends Eol st = (if snd st = [] then [st] else [])"
| "ends (Seq a b) st = concat (map (ends b) (ends a st))"
| "ends (Alt a b) st = ends a st @ ends b st"
| "ends (Rep lo hi r) st = iter (ends r) lo hi (length (snd st)) st"

text \<open>
  \<open>text.match(r)\<close> without the global flag: the leftmost start at which the pattern
  matches, and there the first match in backtracking order. The result is the matched
  text \<open>m[0]\<close>.
\<close>

fun search_from :: "regex \<Rightarrow> char option \<Rightarrow> string \<Rightarrow> string option" where
  "search_from r prev [] =
     (case ends r (prev, []) of [] \<Rightarrow> None | _ # _ \<Rightarrow> Some [])"
| "search_from r prev (c # cs) =
     (case ends r (prev, c # cs) of
        [] \<Rightarrow> search_from r (Some c) cs
      | st' # _ \<Rightarrow> Some (take (length (c # cs) - length (snd st')) (c # cs)))"

definition re_match :: "regex \<Rightarrow> string \<Rightarrow> string option" where
  "re_match r s = search_from r None s"

definition re_test :: "regex \<Rightarrow> string \<Rightarrow> bool" where
  "re_test r s = (re_match r s \<noteq> None)"

text \<open>Building blocks: one given character, a literal, their case-insensitive forms.\<close>

definition chr :: "char \<Rightarrow> regex" where
  "chr c = Cls (\<lambda>x. x = c)"

definition chr_ci :: "char \<Rightarrow> regex" where
  "chr_ci c = Cls (\<lambda>x. lower_char x = lower_char c)"

definition lit_ci :: "string \<Rightarrow> regex" where
  "lit_ci s = foldr (\<lambda>c r. Seq (chr_ci c) r) s Eps"

definition is_alpha :: "char \<Rightarrow> bool" where
  "is_alpha c = (is_lower c \<or> is_upper c)"

definition plus :: "regex \<Rightarrow> regex" where
  "plus r = Rep 1 None r"

definition star :: "regex \<Rightarrow> regex" where
  "star r = Rep 0 None r"

definition opt :: "regex \<Rightarrow> regex" where
  "opt r = Rep 0 (Some 1) r"

section \<open>Department catalog\<close>

text \<open>
  \<^verbatim>\<open>
  const departmentSlots = {
    Cardiology: { times: ["09:00", "12:00"], capacity: 10 },
    Neurology: { times: ["14:00", "17:00"], capacity: 8 },
    Orthopedics: { times: ["10:00", "13:00"], capacity: 6 },
    Pediatrics: { times: ["15:00", "18:00"], capacity: 12 },
    "General Medicine": { times: ["09:00", "12:00"], capacity: 10 },
    Dermatology: { times: ["09:00", "18:00"], capacity: 15 },
  };
  \<close>
  The association list keeps the insertion order that \<open>Object.keys\<close> returns.
\<close>

record dept_slot =
  times :: "string \<times> string"
  capacity :: int

definition departmentSlots :: "(string \<times> dept_slot) list" where
  "departmentSlots =
     [(''Cardiology'', \<lparr>times = (''09:00'', ''12:00''), capacity = 10\<rparr>),
      (''Neurology'', \<lparr>times = (''14:00'', ''17:00''), capacity = 8\<rparr>),
      (''Orthopedics'', \<lparr>times = (''10:00'', ''13:00''), capacity = 6\<rparr>),
      (''Pediatrics'', \<lparr>times = (''15:00'', ''18:00''), capacity = 12\<rparr>),
      (''General Medicine'', \<lparr>times = (''09:00'', ''12:00''), capacity = 10\<rparr>),
      (''Dermatology'', \<lparr>times = (''09:00'', ''18:00''), capacity = 15\<rparr>)]"

definition deptList :: "string list" where
  "deptList = map fst departmentSlots"

definition dept_lookup :: "string \<Rightarrow> dept_slot option" where
  "dept_lookup name = map_of departmentSlots name"

definition dept_times :: "dept_slot \<Rightarrow> string list" where
  "dept_times dept = hoursBetween (fst (times dept)) (snd (times dept))"

section \<open>Text helpers of the conversation\<close>

text \<open>A JavaScript value used as a condition: an absent or empty string is false.\<close>

definition truthy :: "string option \<Rightarrow> bool" where
  "truthy v = (case v of None \<Rightarrow> False | Some s \<Rightarrow> s \<noteq> [])"

definition or_empty :: "string option \<Rightarrow> string" where
  "or_empty v = (case v of None \<Rightarrow> [] | Some s \<Rightarrow> s)"

text \<open>\<open>/\b(hi|hey|hello|hii|hy)\b/i.test(text)\<close>\<close>

definition greeting_re :: regex where
  "greeting_re =
     Seq WordB
       (Seq (Alt (lit_ci ''hi'') (Alt (lit_ci ''hey'') (Alt (lit_ci ''hello'')
               (Alt (lit_ci ''hii'') (lit_ci ''hy'')))))
            WordB)"

definition isGreeting :: "string \<Rightarrow> bool" where
  "isGreeting text = re_test greeting_re text"

text \<open>
  \<^verbatim>\<open>
  function normalizeGender(text) {
    const t = text.toLowerCase();
    if (t.includes("male") || t === "m") return "Male";
    if (t.includes("female") || t === "f") return "Female";
    if (t.includes("other") || t.includes("prefer not") || t === "o") return "Other";
    return null;
  }
  \<close>
\<close>

definition normalizeGender :: "string \<Rightarrow> string option" where
  "normalizeGender text =
     (let t = toLowerCase text in
      if str_includes t ''male'' \<or> t = ''m'' then Some ''Male''
      else if str_includes t ''female'' \<or> t = ''f'' then Some ''Female''
      else if str_includes t ''other'' \<or> str_includes t ''prefer not'' \<or> t = ''o''
        then Some ''Other''
      else None)"

text \<open>
  \<^verbatim>\<open>
  function validatePhone(text) {
    const normalized = text.replace(/[^\d\+]/g, "");
    if (/\+?\d{10,14}/.test(normalized)) return normalized;
    return null;
  }
  \<close>
\<close>

definition phone_re :: regex where
  "phone_re = Seq (opt (chr (CHR ''+''))) (Rep 10 (Some 14) (Cls is_digit))"

definition validatePhone :: "string \<Rightarrow> string option" where
  "validatePhone text =
     (let normalized = filter (\<lambda>c. is_digit c \<or> c = CHR ''+'') text in
      if re_test phone_re normalized then Some normalized else None)"

text \<open>\<open>/\S+@\S+\.\S+/.test(text) ? text : null\<close>\<close>

definition email_shape_re :: regex where
  "email_shape_re =
     Seq (plus (Cls (\<lambda>c. \<not> is_space c)))
       (Seq (chr (CHR ''@''))
         (Seq (plus (Cls (\<lambda>c. \<not> is_space c)))
           (Seq (chr (CHR ''.'')) (plus (Cls (\<lambda>c. \<not> is_space c))))))"

definition validateEmail :: "string \<Rightarrow> string option" where
  "validateEmail text = (if re_test email_shape_re text then Some text else None)"

text \<open>
  \<^verbatim>\<open>
  function normalizeDepartment(text) {
    if (!text) return null;
    const input = text.toLowerCase();
    const list = Object.keys(departmentSlots);
    return list.find((d) => input.includes(d.toLowerCase())) || null;
  }
  \<close>
\<close>

definition normalizeDepartment :: "string \<Rightarrow> string option" where
  "normalizeDepartment text =
     (if text = [] then None
      else List.find (\<lambda>d. str_includes (toLowerCase text) (toLowerCase d)) deptList)"

text \<open>
  \<^verbatim>\<open>
  function extractNameFromSentence(text) {
    let m = text.match(/\bmy name is ([A-Z][a-z]+(?:\s[A-Z][a-z]+)*)/i);
    if (m) return m[1].trim();
    m = text.match(/\bi am ([A-Z][a-z]+(?:\s[A-Z][a-z]+)*)/i);
    if (m) return m[1].trim();
    m = text.match(/\b([A-Z][a-z]+(?:\s[A-Z][a-z]+)*)\b/);
    return m ? m[1] : null;
  }
  \<close>
  Under the flag \<open>i\<close> both letter classes accept either case. The group of the first two
  patterns is what follows a prefix of fixed length.
\<close>

definition name_body :: "(char \<Rightarrow> bool) \<Rightarrow> (char \<Rightarrow> bool) \<Rightarrow> regex" where
  "name_body up lo =
     Seq (Cls up) (Seq (plus (Cls lo))
       (star (Seq (Cls is_space) (Seq (Cls up) (plus (Cls lo))))))"

definition extractNameFromSentence :: "string \<Rightarrow> string option" where
  "extractNameFromSentence text =
     (case re_match (Seq WordB (Seq (lit_ci ''my name is '') (name_body is_alpha is_alpha))) text of
        Some m \<Rightarrow> Some (trim (drop (length ''my name is '') m))
      | None \<Rightarrow>
     (case re_match (Seq WordB (Seq (lit_ci ''i am '') (name_body is_alpha is_alpha))) text of
        Some m \<Rightarrow> Some (trim (drop (length ''i am '') m))
      | None \<Rightarrow> re_match (Seq WordB (Seq (name_body is_upper is_lower) WordB)) text))"

text \<open>
  \<^verbatim>\<open>
  function extractPhone(text) {
    const m = text.match(/(\+?\d[\d\-\s]{8,}\d)/);
    return m ? validatePhone(m[1]) : null;
  }
  function extractEmail(text) {
    const m = text.match(/([a-zA-Z0-9._%+-]+@[a-zA-Z0-9.-]+\.[a-zA-Z]{2,})/);
    return m ? m[1] : null;
  }
  \<close>
\<close>

definition extractPhone :: "string \<Rightarrow> string option" where
  "extractPhone text =
     (case re_match
             (Seq (opt (chr (CHR ''+''))) (Seq (Cls is_digit)
               (Seq (Rep 8 None (Cls (\<lambda>c. is_digit c \<or> c = CHR ''-'' \<or> is_space c)))
                    (Cls is_digit)))) text of
        None \<Rightarrow> None
      | Some m \<Rightarrow> validatePhone m)"

definition extractEmail :: "string \<Rightarrow> string option" where
  "extractEmail text =
     re_match
       (Seq (plus (Cls (\<lambda>c. is_alpha c \<or> is_digit c \<or> c \<in> set ''._%+-'')))
         (Seq (chr (CHR ''@''))
           (Seq (plus (Cls (\<lambda>c. is_alpha c \<or> is_digit c \<or> c \<in> set ''.-'')))
             (Seq (chr (CHR ''.'')) (Rep 2 None (Cls is_alpha)))))) text"

text \<open>
  \<^verbatim>\<open>
  function parseChoice(text) {
    const m = text.match(/\b([1-9][0-9]?)\b/);
    return m ? parseInt(m[1], 10) : null;
  }
  \<close>
\<close>

definition parseChoice :: "string \<Rightarrow> int option" where
  "parseChoice text =
     (case re_match
             (Seq WordB (Seq (Cls (\<lambda>c. c \<in> set ''123456789''))
               (Seq (opt (Cls is_digit)) WordB))) text of
        None \<Rightarrow> None
      | Some m \<Rightarrow> parseInt m)"

section \<open>Persisted data\<close>

text \<open>
  The fields a conversation collects; an absent property is \<open>None\<close>.
\<close>

record reg_data =
  firstName :: "string option"
  lastName :: "string option"
  gender :: "string option"
  address :: "string option"
  email :: "string option"
  phoneNumber :: "string option"
  department :: "string option"
  registrationDate :: "string option"
  registrationTime :: "string option"

definition empty_data :: reg_data where
  "empty_data =
     \<lparr>firstName = None, lastName = None, gender = None, address = None, email = None,
      phoneNumber = None, department = None, registrationDate = None,
      registrationTime = None\<rparr>"

text \<open>A document of \<open>registration_states\<close>; \<open>updatedAt\<close> is in milliseconds.\<close>

record session =
  step :: "string option"
  data :: reg_data
  updatedAt :: "int option"

text \<open>A document of \<open>appointments\<close>, the slot ledger.\<close>

record slot_doc =
  slot_department :: string
  slot_date :: string
  slot_time :: string
  slot_capacity :: int
  slot_count :: int
  slot_patients :: "string list"

text \<open>A document of \<open>patients\<close>.\<close>

record patient_doc =
  PatientID :: string
  FirstName :: string
  LastName :: string
  Gender :: string
  Address :: string
  Email :: string
  PhoneNumber :: string
  p_department :: string
  RegistrationDate :: string
  RegistrationTime :: string
  createdAt :: int

text \<open>
  The database: three collections and the counter document, whose \<open>count\<close> is \<open>None\<close>
  while the document does not exist.
\<close>

record store =
  registration_states :: "string \<rightharpoonup> session"
  appointments :: "string \<rightharpoonup> slot_doc"
  patients :: "string \<rightharpoonup> patient_doc"
  patient_counter :: "int option"

definition empty_store :: store where
  "empty_store =
     \<lparr>registration_states = Map.empty, appointments = Map.empty, patients = Map.empty,
      patient_counter = None\<rparr>"

section \<open>Conversation state store\<close>

text \<open>
  \<^verbatim>\<open>
  async function getState(sender) {
    const doc = await db.collection("registration_states").doc(sender).get();
    if (!doc.exists) return { step: null, data: {}, updatedAt: null };
    const data = doc.data();
    if (data.updatedAt) {
      const ageMs = Date.now() - data.updatedAt.toMillis();
      if (ageMs > 30 * 60 * 1000) {
        await resetState(sender);
        return { step: null, data: {}, updatedAt: null };
      }
    }
    return data;
  }
  async function setState(sender, state) {
    await db.collection("registration_states").doc(sender).set({
      ...state, updatedAt: admin.firestore.Timestamp.now() });
  }
  async function resetState(sender) {
    await db.collection("registration_states").doc(sender).delete().catch(() => {});
  }
  \<close>
\<close>

definition blank_state :: session where
  "blank_state = \<lparr>step = None, data = empty_data, updatedAt = None\<rparr>"

definition resetState :: "string \<Rightarrow> store \<Rightarrow> store" where
  "resetState sender st =
     st\<lparr>registration_states := (registration_states st)(sender := None)\<rparr>"

definition setState :: "int \<Rightarrow> string \<Rightarrow> session \<Rightarrow> store \<Rightarrow> store" where
  "setState now sender state st =
     st\<lparr>registration_states :=
          (registration_states st)(sender \<mapsto> state\<lparr>updatedAt := Some now\<rparr>)\<rparr>"

definition getState :: "int \<Rightarrow> string \<Rightarrow> store \<Rightarrow> session \<times> store" where
  "getState now sender st =
     (case registration_states st sender of
        None \<Rightarrow> (blank_state, st)
      | Some doc \<Rightarrow>
          (case updatedAt doc of
             None \<Rightarrow> (doc, st)
           | Some u \<Rightarrow>
               if now - u > 30 * 60 * 1000 then (blank_state, resetState sender st)
               else (doc, st)))"

section \<open>Slot reservation transaction\<close>

text \<open>
  A Firestore transaction runs its body against a snapshot, buffers the writes and applies
  them together on commit. A body that throws commits nothing. The store serialises
  transactions (a body that raced with a commit is run again on the new snapshot), so the
  effect of a transaction is that of its body run alone on the store at commit time.
\<close>

datatype tx_write =
    SetCounter int
  | SetPatient string patient_doc
  | SetSlot string slot_doc

fun apply_write :: "store \<Rightarrow> tx_write \<Rightarrow> store" where
  "apply_write st (SetCounter c) = st\<lparr>patient_counter := Some c\<rparr>"
| "apply_write st (SetPatient pid p) = st\<lparr>patients := (patients st)(pid \<mapsto> p)\<rparr>"
| "apply_write st (SetSlot sid d) = st\<lparr>appointments := (appointments st)(sid \<mapsto> d)\<rparr>"

definition runTransaction ::
    "(store \<Rightarrow> string + (tx_write list \<times> 'a)) \<Rightarrow> store \<Rightarrow> string + (store \<times> 'a)" where
  "runTransaction body st =
     (case body st of
        Inl err \<Rightarrow> Inl err
      | Inr (ws, x) \<Rightarrow> Inr (foldl apply_write st ws, x))"

text \<open>
  \<^verbatim>\<open>
  async function generatePatientId(transaction) {
    const counterRef = db.collection("metadata").doc("patient_counter");
    const snap = await transaction.get(counterRef);
    let count = 1000;
    if (snap.exists) count = (snap.data().count || 1000) + 1;
    else count = 1001;
    transaction.set(counterRef, { count }, { merge: true });
    return `P${count}`;
  }
  \<close>
\<close>

definition next_count :: "int option \<Rightarrow> int" where
  "next_count c =
     (case c of
        Some n \<Rightarrow> (if n = 0 then 1000 else n) + 1
      | None \<Rightarrow> 1001)"

definition generatePatientId :: "store \<Rightarrow> tx_write list \<times> string" where
  "generatePatientId snap =
     (let count = next_count (patient_counter snap)
      in ([SetCounter count], CHR ''P'' # show_int count))"

text \<open>
  \<^verbatim>\<open>
  async function attemptRegistration(data) {
    if (!data.department) throw new Error("Department missing.");
    const dept = departmentSlots[data.department];
    if (!dept) throw new Error("Invalid department.");
    const validTimes = hoursBetween(dept.times[0], dept.times[1]);
    if (!validTimes.includes(data.registrationTime))
      throw new Error("Selected time not allowed for the department.");
    const slotId = `${data.department}_${data.registrationDate}_${data.registrationTime}`;
    const slotRef = db.collection("appointments").doc(slotId);
    let patientId = null;
    await db.runTransaction(async (tx) => {
      const slotSnap = await tx.get(slotRef);
      const currentCount = slotSnap.exists ? (slotSnap.data().count || 0) : 0;
      if (currentCount >= dept.capacity) throw new Error("Slot full");
      patientId = await generatePatientId(tx);
      const patientRef = db.collection("patients").doc(patientId);
      tx.set(patientRef, { PatientID: patientId, FirstName: data.firstName || "", ...,
        department: data.department, RegistrationDate: data.registrationDate,
        RegistrationTime: data.registrationTime, createdAt: ...Timestamp.now() });
      const newCount = currentCount + 1;
      const newPatients = slotSnap.exists
        ? [...(slotSnap.data().patients || []), patientId] : [patientId];
      tx.set(slotRef, { department: ..., date: ..., time: ..., capacity: dept.capacity,
        count: newCount, patients: newPatients }, { merge: true });
    });
    return patientId;
  }
  \<close>
  A missing \<open>registrationDate\<close> prints as \<open>undefined\<close> in the slot id, and the store
  refuses the patient document that holds it, which aborts the transaction.
\<close>

definition slot_id :: "string \<Rightarrow> string \<Rightarrow> string \<Rightarrow> string" where
  "slot_id dep date time = dep @ ''_'' @ date @ ''_'' @ time"

definition registration_tx ::
    "int \<Rightarrow> reg_data \<Rightarrow> string \<Rightarrow> dept_slot \<Rightarrow> string \<Rightarrow> store \<Rightarrow> string + (tx_write list \<times> string)" where
  "registration_tx now d dep dept time snap =
     (let slotId = slot_id dep (case registrationDate d of None \<Rightarrow> ''undefined'' | Some x \<Rightarrow> x) time;
          slotSnap = appointments snap slotId;
          currentCount = (case slotSnap of Some sl \<Rightarrow> slot_count sl | None \<Rightarrow> 0)
      in if currentCount \<ge> capacity dept then Inl ''Slot full''
         else
           (let (counter_writes, patientId) = generatePatientId snap in
            case registrationDate d of
              None \<Rightarrow> Inl ''Cannot use undefined as a Firestore value''
            | Some date \<Rightarrow>
                Inr (counter_writes @
                     [SetPatient patientId
                        \<lparr>PatientID = patientId,
                         FirstName = or_empty (firstName d),
                         LastName = or_empty (lastName d),
                         Gender = or_empty (gender d),
                         Address = or_empty (address d),
                         Email = or_empty (email d),
                         PhoneNumber = or_empty (phoneNumber d),
                         p_department = dep,
                         RegistrationDate = date,
                         RegistrationTime = time,
                         createdAt = now\<rparr>,
                      SetSlot slotId
                        \<lparr>slot_department = dep,
                         slot_date = date,
                         slot_time = time,
                         slot_capacity = capacity dept,
                         slot_count = currentCount + 1,
                         slot_patients =
                           (case slotSnap of
                              Some sl \<Rightarrow> slot_patients sl @ [patientId]
                            | None \<Rightarrow> [patientId])\<rparr>],
                     patientId)))"

definition attemptRegistration :: "int \<Rightarrow> reg_data \<Rightarrow> store \<Rightarrow> string + (store \<times> string)" where
  "attemptRegistration now d st =
     (case department d of
        None \<Rightarrow> Inl ''Department missing.''
      | Some dep \<Rightarrow>
          if dep = [] then Inl ''Department missing.''
          else
            (case dept_lookup dep of
               None \<Rightarrow> Inl ''Invalid department.''
             | Some dept \<Rightarrow>
                 (case registrationTime d of
                    None \<Rightarrow> Inl ''Selected time not allowed for the department.''
                  | Some time \<Rightarrow>
                      if time \<notin> set (dept_times dept)
                      then Inl ''Selected time not allowed for the department.''
                      else runTransaction (registration_tx now d dep dept time) st)))"

section \<open>The environment of one inbound message\<close>

text \<open>
  The date parser \<open>chrono-node\<close> and the clock are outside the program; they are
  parameters. A parsed date is known through what the backend reads of it: the day of
  \<open>toISOString().split("T")[0]\<close>, \<open>getHours()\<close> and \<open>getMinutes()\<close>. A result of
  \<open>chrono.parse\<close> is its \<open>start\<close> component, with the outcome of the test
  \<open>p.start.isOnlyDate === false\<close>. \<open>today\<close> is
  \<open>new Date().toISOString().split("T")[0]\<close>. The identifier \<open>doctorLimits\<close> is read by
  the prompt for the time but is not declared in the module: \<open>None\<close> is the module as it
  stands, where reading it throws a ReferenceError; \<open>Some table\<close> is the module with that
  table declared.
\<close>

record js_date =
  iso_day :: string
  hours :: int
  minutes :: int

record chrono_start =
  start_date :: js_date
  isOnlyDate_is_false :: bool

record env =
  chrono_parse :: "string \<Rightarrow> chrono_start option list"
  chrono_parseDate :: "string \<Rightarrow> js_date option"
  now :: int
  today :: string
  doctorLimits :: "(string \<Rightarrow> int option) option"

text \<open>What handling one message did: the store, the texts sent to the sender, and the
  exception that left \<open>processMessage\<close>, if any.\<close>

record outcome =
  db :: store
  sent :: "string list"
  thrown :: "string option"

definition reply :: "store \<Rightarrow> string \<Rightarrow> outcome" where
  "reply st msg = \<lparr>db = st, sent = [msg], thrown = None\<rparr>"

definition throw :: "store \<Rightarrow> string \<Rightarrow> outcome" where
  "throw st err = \<lparr>db = st, sent = [], thrown = Some err\<rparr>"

definition nl :: string where
  "nl = [CHR 0x0A]"

definition two_digits :: "int \<Rightarrow> string" where
  "two_digits n = padStart 2 (CHR ''0'') (show_int n)"

text \<open>
  \<^verbatim>\<open>
  function extractDateTime(text) {
    const parsed = chrono.parse(text);
    if (!parsed || parsed.length === 0) return {};
    const p = parsed[0];
    const date = p.start ? p.start.date() : null;
    let dateStr = null; let timeStr = null;
    if (date) {
      dateStr = date.toISOString().split("T")[0];
      if (p.start.isOnlyDate === false) {
        const hh = date.getHours().toString().padStart(2, "0");
        const mm = date.getMinutes().toString().padStart(2, "0");
        timeStr = `${hh}:${mm}`;
      }
    }
    return { date: dateStr, time: timeStr };
  }
  \<close>
\<close>

definition extractDateTime :: "env \<Rightarrow> string \<Rightarrow> string option \<times> string option" where
  "extractDateTime e text =
     (case chrono_parse e text of
        [] \<Rightarrow> (None, None)
      | p # _ \<Rightarrow>
          (case p of
             None \<Rightarrow> (None, None)
           | Some st \<Rightarrow>
               (Some (iso_day (start_date st)),
                if isOnlyDate_is_false st
                then Some (two_digits (hours (start_date st)) @ '':'' @
                           two_digits (minutes (start_date st)))
                else None)))"

section \<open>Dialogue state machine\<close>

text \<open>
  The function \<open>processMessage\<close> of the backend, one definition for the bootstrap from free
  text and one for each case of its \<open>switch\<close>. Message texts are the program's, without
  their pictographs and with a hyphen for the dash.
\<close>

definition welcome_text :: string where
  "welcome_text = ''Welcome to NovaMed Multispeciality Care'' @ nl @
     ''Say 'patient registration' to begin, or send details in one sentence.''"

text \<open>
  The branch \<open>if (!state.step)\<close>: the explicit start phrase, then the pre-fill from
  whatever the extractors found, with a direct booking attempt when phone, department,
  date, time and first name are all there.
\<close>

definition prefill :: "env \<Rightarrow> string \<Rightarrow> reg_data" where
  "prefill e text =
     (let phone = extractPhone text;
          mail = extractEmail text;
          name = extractNameFromSentence text;
          dept = normalizeDepartment text;
          gen = normalizeGender text;
          dt = extractDateTime e text;
          d0 = empty_data;
          d1 = (if truthy name
                then d0\<lparr>firstName := Some (hd (split_on (CHR '' '') (or_empty name))),
                        lastName := Some (join '' '' (tl (split_on (CHR '' '') (or_empty name))))\<rparr>
                else d0);
          d2 = (if truthy phone then d1\<lparr>phoneNumber := phone\<rparr> else d1);
          d3 = (if truthy mail then d2\<lparr>email := mail\<rparr> else d2);
          d4 = (if truthy dept then d3\<lparr>department := dept\<rparr> else d3);
          d5 = (if truthy gen then d4\<lparr>gender := gen\<rparr> else d4);
          d6 = (if truthy (fst dt) then d5\<lparr>registrationDate := fst dt\<rparr> else d5);
          d7 = (if truthy (snd dt) then d6\<lparr>registrationTime := snd dt\<rparr> else d6)
      in d7)"

definition any_field_detected :: "env \<Rightarrow> string \<Rightarrow> bool" where
  "any_field_detected e text =
     (truthy (extractPhone text) \<or> truthy (extractEmail text) \<or>
      truthy (extractNameFromSentence text) \<or> truthy (normalizeDepartment text) \<or>
      truthy (fst (extractDateTime e text)) \<or> truthy (snd (extractDateTime e text)) \<or>
      truthy (normalizeGender text))"

definition enough_info :: "reg_data \<Rightarrow> bool" where
  "enough_info d =
     (truthy (phoneNumber d) \<and> truthy (department d) \<and> truthy (registrationDate d) \<and>
      truthy (registrationTime d) \<and> truthy (firstName d))"

definition nlp_bootstrap :: "env \<Rightarrow> string \<Rightarrow> string \<Rightarrow> store \<Rightarrow> outcome" where
  "nlp_bootstrap e sender text st =
     (if str_includes (toLowerCase text) ''patient registration'' \<or>
         str_includes (toLowerCase text) ''register me''
      then reply (setState (now e) sender
                    \<lparr>step = Some ''firstName'', data = empty_data, updatedAt = None\<rparr> st)
             ''Welcome! Let's get you registered. What's your *First Name*?''
      else if any_field_detected e text
      then
        (let state = \<lparr>step = Some ''firstName'', data = prefill e text, updatedAt = None\<rparr>;
             st1 = setState (now e) sender state st
         in if enough_info (data state)
            then
              (case attemptRegistration (now e) (data state) st1 of
                 Inr (st2, pid) \<Rightarrow>
                   reply (resetState sender st2)
                     (''Registration complete! Patient ID: '' @ pid @ nl @
                      ''Dept: '' @ or_empty (department (data state)) @ nl @
                      ''Date: '' @ or_empty (registrationDate (data state)) @ nl @
                      ''Time: '' @ or_empty (registrationTime (data state)))
               | Inl err \<Rightarrow>
                   reply (setState (now e) sender state st1)
                     (err @ ''. Let's continue step-by-step. What's your first name?''))
            else reply st1 ''Let's continue your registration. What's your *First Name*?'')
      else reply st
             ''Say 'patient registration' to begin registration, or send your full details in one sentence.'')"

definition step_firstName :: "env \<Rightarrow> string \<Rightarrow> string \<Rightarrow> session \<Rightarrow> store \<Rightarrow> outcome" where
  "step_firstName e sender text s st =
     reply (setState (now e) sender
              (s\<lparr>step := Some ''lastName'', data := (data s)\<lparr>firstName := Some text\<rparr>\<rparr>) st)
       ''Thanks - last name please (or type '-' if none).''"

definition step_lastName :: "env \<Rightarrow> string \<Rightarrow> string \<Rightarrow> session \<Rightarrow> store \<Rightarrow> outcome" where
  "step_lastName e sender text s st =
     reply (setState (now e) sender
              (s\<lparr>step := Some ''gender'',
                 data := (data s)\<lparr>lastName := Some (if text = ''-'' then [] else text)\<rparr>\<rparr>) st)
       (''Select Gender:'' @ nl @ ''1. Male'' @ nl @ ''2. Female'' @ nl @ ''3. Other'')"

definition gender_answer :: "string \<Rightarrow> string option" where
  "gender_answer text =
     (let choice = parseChoice text in
      if choice = Some 1 then Some ''Male''
      else if choice = Some 2 then Some ''Female''
      else if choice = Some 3 then Some ''Other''
      else normalizeGender text)"

definition step_gender :: "env \<Rightarrow> string \<Rightarrow> string \<Rightarrow> session \<Rightarrow> store \<Rightarrow> outcome" where
  "step_gender e sender text s st =
     (case gender_answer text of
        None \<Rightarrow> reply st ''Please select gender: 1 (Male), 2 (Female), 3 (Other).''
      | Some g \<Rightarrow>
          reply (setState (now e) sender
                   (s\<lparr>step := Some ''address'', data := (data s)\<lparr>gender := Some g\<rparr>\<rparr>) st)
            ''Please enter your address.'')"

definition step_address :: "env \<Rightarrow> string \<Rightarrow> string \<Rightarrow> session \<Rightarrow> store \<Rightarrow> outcome" where
  "step_address e sender text s st =
     reply (setState (now e) sender
              (s\<lparr>step := Some ''email'', data := (data s)\<lparr>address := Some text\<rparr>\<rparr>) st)
       ''Please enter your email (or type 'skip').''"

definition email_answer :: "string \<Rightarrow> string option" where
  "email_answer text =
     (if toLowerCase text = ''skip'' then Some [] else validateEmail text)"

definition step_email :: "env \<Rightarrow> string \<Rightarrow> string \<Rightarrow> session \<Rightarrow> store \<Rightarrow> outcome" where
  "step_email e sender text s st =
     (case email_answer text of
        None \<Rightarrow> reply st ''That doesn't look like a valid email. Please re-enter or type 'skip'.''
      | Some m \<Rightarrow>
          reply (setState (now e) sender
                   (s\<lparr>step := Some ''phoneNumber'', data := (data s)\<lparr>email := Some m\<rparr>\<rparr>) st)
            ''Please enter your phone number (include country code).'')"

definition department_menu :: string where
  "department_menu =
     ''Select Department:'' @ nl @
     concat (map (\<lambda>(i, dep). show_nat (i + 1) @ ''. '' @ dep @ nl)
               (zip [0 ..< length deptList] deptList))"

definition step_phoneNumber :: "env \<Rightarrow> string \<Rightarrow> string \<Rightarrow> session \<Rightarrow> store \<Rightarrow> outcome" where
  "step_phoneNumber e sender text s st =
     (case validatePhone text of
        None \<Rightarrow> reply st ''Invalid phone format. Please send a valid phone number.''
      | Some p \<Rightarrow>
          reply (setState (now e) sender
                   (s\<lparr>step := Some ''department'', data := (data s)\<lparr>phoneNumber := Some p\<rparr>\<rparr>) st)
            department_menu)"

text \<open>
  The entry \<open>list[choice - 1]\<close> of a menu, taken when
  \<open>choice && choice >= 1 && choice <= list.length\<close>.
\<close>

definition menu_pick :: "int option \<Rightarrow> string list \<Rightarrow> string option" where
  "menu_pick choice list =
     (case choice of
        None \<Rightarrow> None
      | Some c \<Rightarrow>
          if c \<noteq> 0 \<and> 1 \<le> c \<and> c \<le> int (length list) then Some (list ! nat (c - 1))
          else None)"

definition department_answer :: "string \<Rightarrow> string option" where
  "department_answer text =
     (case menu_pick (parseChoice text) deptList of
        Some dep \<Rightarrow> Some dep
      | None \<Rightarrow> normalizeDepartment text)"

definition step_department :: "env \<Rightarrow> string \<Rightarrow> string \<Rightarrow> session \<Rightarrow> store \<Rightarrow> outcome" where
  "step_department e sender text s st =
     (case department_answer text of
        None \<Rightarrow> reply st ''Invalid department. Reply with the number or name.''
      | Some dep \<Rightarrow>
          reply (setState (now e) sender
                   (s\<lparr>step := Some ''registrationDate'',
                      data := (data s)\<lparr>department := Some dep\<rparr>\<rparr>) st)
            ''Enter registration date (e.g., 'tomorrow' or '2025-11-10').'')"

text \<open>
  The case \<open>registrationDate\<close>. After the state is saved the prompt is built: one line for
  every generated time, with the remaining places
  \<open>(doctorLimits[d.department] || departmentSlots[d.department].capacity) - count\<close>.
  \<open>departmentSlots[d.department].times\<close> throws a TypeError for a department that is not in
  the catalog.
\<close>

definition slot_count_of :: "store \<Rightarrow> string \<Rightarrow> int" where
  "slot_count_of st slotId =
     (case appointments st slotId of None \<Rightarrow> 0 | Some sl \<Rightarrow> slot_count sl)"

definition limit_of :: "(string \<Rightarrow> int option) \<Rightarrow> string \<Rightarrow> dept_slot \<Rightarrow> int" where
  "limit_of table dep dept =
     (case table dep of
        None \<Rightarrow> capacity dept
      | Some c \<Rightarrow> if c = 0 then capacity dept else c)"

definition time_line ::
    "store \<Rightarrow> (string \<Rightarrow> int option) \<Rightarrow> string \<Rightarrow> dept_slot \<Rightarrow> string \<Rightarrow> nat \<times> string \<Rightarrow> string" where
  "time_line st table dep dept date it =
     show_nat (fst it + 1) @ ''. '' @ snd it @ '' (Remaining: '' @
     show_int (limit_of table dep dept - slot_count_of st (slot_id dep date (snd it))) @
     '')'' @ nl"

definition times_prompt ::
    "store \<Rightarrow> (string \<Rightarrow> int option) \<Rightarrow> string \<Rightarrow> dept_slot \<Rightarrow> string \<Rightarrow> string" where
  "times_prompt st table dep dept date =
     ''Available times for '' @ dep @ '' on '' @ date @ '':'' @ nl @
     concat (map (time_line st table dep dept date)
               (zip [0 ..< length (dept_times dept)] (dept_times dept))) @
     ''Reply with the number or the time (e.g., 10:00).''"

definition session_dept :: "session \<Rightarrow> (string \<times> dept_slot) option" where
  "session_dept s =
     (case department (data s) of
        None \<Rightarrow> None
      | Some dep \<Rightarrow> map_option (\<lambda>dept. (dep, dept)) (dept_lookup dep))"

definition step_registrationDate :: "env \<Rightarrow> string \<Rightarrow> string \<Rightarrow> session \<Rightarrow> store \<Rightarrow> outcome" where
  "step_registrationDate e sender text s st =
     (case chrono_parseDate e text of
        None \<Rightarrow> reply st ''Couldn't parse a future date. Please enter again.''
      | Some parsed \<Rightarrow>
          if js_str_le (iso_day parsed) (today e)
          then reply st ''Please pick a future date.''
          else
            (let s' = s\<lparr>step := Some ''registrationTime'',
                         data := (data s)\<lparr>registrationDate := Some (iso_day parsed)\<rparr>\<rparr>;
                 st1 = setState (now e) sender s' st
             in case session_dept s' of
                  None \<Rightarrow> throw st1 ''TypeError: Cannot read properties of undefined (reading 'times')''
                | Some (dep, dept) \<Rightarrow>
                    if dept_times dept = []
                    then reply st1 (times_prompt st1 (\<lambda>_. None) dep dept (iso_day parsed))
                    else
                      (case doctorLimits e of
                         None \<Rightarrow> throw st1 ''ReferenceError: doctorLimits is not defined''
                       | Some table \<Rightarrow>
                           reply st1 (times_prompt st1 table dep dept (iso_day parsed)))))"

text \<open>
  The case \<open>registrationTime\<close>: a menu number, or a time in words that is normalised to a
  full hour; then the reservation.
\<close>

definition one_or_two_digits_re :: regex where
  "one_or_two_digits_re = Seq Bol (Seq (Rep 1 (Some 2) (Cls is_digit)) Eol)"

definition time_answer :: "env \<Rightarrow> string list \<Rightarrow> string \<Rightarrow> string option" where
  "time_answer e tms text =
     (case menu_pick (parseChoice text) tms of
        Some t \<Rightarrow> Some t
      | None \<Rightarrow>
        (let c0 = trim text;
             c1 = (if re_test one_or_two_digits_re c0
                   then padStart 2 (CHR ''0'') c0 @ '':00'' else c0);
             c2 = (case chrono_parseDate e c1 of
                     Some dt \<Rightarrow> two_digits (hours dt) @ '':00''
                   | None \<Rightarrow> c1)
         in if c2 \<in> set tms then Some c2 else None))"

definition step_registrationTime :: "env \<Rightarrow> string \<Rightarrow> string \<Rightarrow> session \<Rightarrow> store \<Rightarrow> outcome" where
  "step_registrationTime e sender text s st =
     (case session_dept s of
        None \<Rightarrow> throw st ''TypeError: Cannot read properties of undefined (reading 'times')''
      | Some (dep, dept) \<Rightarrow>
          (case time_answer e (dept_times dept) text of
             None \<Rightarrow> reply st ''Invalid time. Choose from the options sent.''
           | Some t \<Rightarrow>
               (let d = (data s)\<lparr>registrationTime := Some t\<rparr> in
                case attemptRegistration (now e) d st of
                  Inr (st1, pid) \<Rightarrow>
                    reply (resetState sender st1)
                      (''Registration successful!'' @ nl @ ''Patient ID: '' @ pid @ nl @
                       ''Department: '' @ or_empty (department d) @ nl @
                       ''Date: '' @ or_empty (registrationDate d) @ nl @
                       ''Time: '' @ or_empty (registrationTime d))
                | Inl err \<Rightarrow>
                    reply (setState (now e) sender
                             (s\<lparr>step := Some ''registrationTime'', data := d\<rparr>) st)
                      (err @ ''. Please choose a different time or date.''))))"

definition step_flow :: "env \<Rightarrow> string \<Rightarrow> string \<Rightarrow> session \<Rightarrow> store \<Rightarrow> outcome" where
  "step_flow e sender text s st =
     (if step s = Some ''firstName'' then step_firstName e sender text s st
      else if step s = Some ''lastName'' then step_lastName e sender text s st
      else if step s = Some ''gender'' then step_gender e sender text s st
      else if step s = Some ''address'' then step_address e sender text s st
      else if step s = Some ''email'' then step_email e sender text s st
      else if step s = Some ''phoneNumber'' then step_phoneNumber e sender text s st
      else if step s = Some ''department'' then step_department e sender text s st
      else if step s = Some ''registrationDate'' then step_registrationDate e sender text s st
      else if step s = Some ''registrationTime'' then step_registrationTime e sender text s st
      else reply (resetState sender st)
             ''Session reset. Say 'patient registration' to begin again.'')"

text \<open>
  \<^verbatim>\<open>
  async function processMessage(sender, text) {
    text = (text || "").trim();
    if (isGreeting(text)) { await sendWhatsAppMessage(sender, "Welcome ..."); return; }
    let state = await getState(sender);
    if (!state.step) { ... }          // nlp_bootstrap
    switch (state.step) { ... }       // step_flow
  }
  \<close>
\<close>

definition processMessage :: "env \<Rightarrow> string \<Rightarrow> string \<Rightarrow> store \<Rightarrow> outcome" where
  "processMessage e sender raw st =
     (let text = trim raw in
      if isGreeting text then reply st welcome_text
      else
        (let (state, st1) = getState (now e) sender st in
         if \<not> truthy (step state) then nlp_bootstrap e sender text st1
         else step_flow e sender text state st1))"

section \<open>Notions used to state the properties\<close>

text \<open>A session that \<open>getState\<close> at time \<open>t\<close> returns as it is stored.\<close>

definition live :: "int \<Rightarrow> session \<Rightarrow> bool" where
  "live t s = (case updatedAt s of None \<Rightarrow> True | Some u \<Rightarrow> t - u \<le> 30 * 60 * 1000)"

text \<open>
  The answer \<open>text\<close> fails the check of the validating step the session is at: the
  condition under which that case of the \<open>switch\<close> sends its re-prompt and returns.
\<close>

definition answer_rejected :: "env \<Rightarrow> session \<Rightarrow> string \<Rightarrow> bool" where
  "answer_rejected e s text =
     (if step s = Some ''gender'' then gender_answer text = None
      else if step s = Some ''email'' then email_answer text = None
      else if step s = Some ''phoneNumber'' then validatePhone text = None
      else if step s = Some ''department'' then department_answer text = None
      else if step s = Some ''registrationDate''
        then (case chrono_parseDate e text of
                None \<Rightarrow> True
              | Some parsed \<Rightarrow> js_str_le (iso_day parsed) (today e))
      else if step s = Some ''registrationTime''
        then (case session_dept s of
                None \<Rightarrow> False
              | Some (dep, dept) \<Rightarrow> time_answer e (dept_times dept) text = None)
      else False)"

text \<open>The store after a sender's messages, each handled in its own environment.\<close>

fun run_messages :: "string \<Rightarrow> (env \<times> string) list \<Rightarrow> store \<Rightarrow> store" where
  "run_messages sender [] st = st"
| "run_messages sender ((e, raw) # ms) st =
     run_messages sender ms (db (processMessage e sender raw st))"

text \<open>The department a slot id starts with, and the slot id a patient record points to.\<close>

definition slot_dept :: "string \<Rightarrow> string" where
  "slot_dept sid = takeWhile (\<lambda>c. c \<noteq> CHR ''_'') sid"

definition patient_key :: "patient_doc \<Rightarrow> string" where
  "patient_key p = slot_id (p_department p) (RegistrationDate p) (RegistrationTime p)"

definition slot_patients_of :: "store \<Rightarrow> string \<Rightarrow> string list" where
  "slot_patients_of st slotId =
     (case appointments st slotId of None \<Rightarrow> [] | Some sl \<Rightarrow> slot_patients sl)"

text \<open>
  The ledger invariant: in every slot document the count is the length of the occupant
  list and does not exceed the capacity of the slot's department, and every patient
  record is listed in the slot document it points to.
\<close>

definition ledger_ok :: "store \<Rightarrow> bool" where
  "ledger_ok st =
     ((\<forall>sid sl. appointments st sid = Some sl \<longrightarrow>
         slot_count sl = int (length (slot_patients sl)) \<and>
         (\<forall>dept. dept_lookup (slot_dept sid) = Some dept \<longrightarrow> slot_count sl \<le> capacity dept)) \<and>
      (\<forall>pid p. patients st pid = Some p \<longrightarrow>
         (\<exists>sl. appointments st (patient_key p) = Some sl \<and> pid \<in> set (slot_patients sl))))"

text \<open>The identifiers of the patient records of one department, date and time.\<close>

definition booked :: "store \<Rightarrow> string \<Rightarrow> string \<Rightarrow> string \<Rightarrow> string set" where
  "booked st dep date time =
     {pid. \<exists>p. patients st pid = Some p \<and> p_department p = dep \<and>
               RegistrationDate p = date \<and> RegistrationTime p = time}"

text \<open>
  A sequence of reservation attempts, run one transaction after the other; a failed
  attempt leaves the store as it was. The result is the final store and the identifiers
  returned, in the order of issue.
\<close>

fun run_attempts :: "(int \<times> reg_data) list \<Rightarrow> store \<Rightarrow> store \<times> string list" where
  "run_attempts [] st = (st, [])"
| "run_attempts ((t, d) # rest) st =
     (case attemptRegistration t d st of
        Inl err \<Rightarrow> run_attempts rest st
      | Inr (st', pid) \<Rightarrow>
          (case run_attempts rest st' of (st'', ids) \<Rightarrow> (st'', pid # ids)))"

text \<open>The documents a successful reservation writes.\<close>

definition new_patient :: "int \<Rightarrow> reg_data \<Rightarrow> string \<Rightarrow> string \<Rightarrow> string \<Rightarrow> string \<Rightarrow> patient_doc" where
  "new_patient t d pid dep date time =
     \<lparr>PatientID = pid, FirstName = or_empty (firstName d), LastName = or_empty (lastName d),
      Gender = or_empty (gender d), Address = or_empty (address d), Email = or_empty (email d),
      PhoneNumber = or_empty (phoneNumber d), p_department = dep, RegistrationDate = date,
      RegistrationTime = time, createdAt = t\<rparr>"

definition new_slot :: "store \<Rightarrow> dept_slot \<Rightarrow> string \<Rightarrow> string \<Rightarrow> string \<Rightarrow> string \<Rightarrow> slot_doc" where
  "new_slot st dept pid dep date time =
     \<lparr>slot_department = dep, slot_date = date, slot_time = time, slot_capacity = capacity dept,
      slot_count = slot_count_of st (slot_id dep date time) + 1,
      slot_patients = slot_patients_of st (slot_id dep date time) @ [pid]\<rparr>"

section \<open>Sample inputs\<close>

definition sample_sender :: string where
  "sample_sender = ''919900000001''"

definition sample_session :: session where
  "sample_session =
     \<lparr>step = Some ''gender'',
      data = empty_data\<lparr>firstName := Some ''Asha'', lastName := Some ''Rao''\<rparr>,
      updatedAt = Some 0\<rparr>"

definition sample_store :: store where
  "sample_store = empty_store\<lparr>registration_states := [sample_sender \<mapsto> sample_session]\<rparr>"

text \<open>A parser that knows two phrases, on 30 November 2025.\<close>

definition sample_parseDate :: "string \<Rightarrow> js_date option" where
  "sample_parseDate text =
     (if text = ''tomorrow'' \<or> text = ''2025-12-01''
      then Some \<lparr>iso_day = ''2025-12-01'', hours = 12, minutes = 0\<rparr>
      else if text = ''yesterday''
      then Some \<lparr>iso_day = ''2025-11-29'', hours = 12, minutes = 0\<rparr>
      else None)"

definition sample_parse :: "string \<Rightarrow> chrono_start option list" where
  "sample_parse text =
     (if str_includes (toLowerCase text) ''tomorrow at 10am''
      then [Some \<lparr>start_date = \<lparr>iso_day = ''2025-12-01'', hours = 10, minutes = 0\<rparr>,
                  isOnlyDate_is_false = True\<rparr>]
      else [])"

definition sample_env :: env where
  "sample_env =
     \<lparr>chrono_parse = sample_parse, chrono_parseDate = sample_parseDate,
      now = 29 * 60 * 1000, today = ''2025-11-30'', doctorLimits = None\<rparr>"

definition cardiology_request :: reg_data where
  "cardiology_request =
     empty_data\<lparr>firstName := Some ''Asha'', phoneNumber := Some ''9876543210'',
                department := Some ''Cardiology'', registrationDate := Some ''2025-12-01'',
                registrationTime := Some ''10:00''\<rparr>"

definition eleven_attempts :: "(int \<times> reg_data) list" where
  "eleven_attempts = replicate 11 (0, cardiology_request)"

text \<open>
  The number a patient identifier carries after its prefix, read back as \<open>parseInt\<close> reads
  a number; and the identifier that carries a given number.
\<close>

definition patient_number :: "string \<Rightarrow> int option" where
  "patient_number pid = parseInt (drop 1 pid)"

definition patient_id_of :: "int \<Rightarrow> string" where
  "patient_id_of n = CHR ''P'' # show_int n"

text \<open>Two bookings with an attempt at a time outside the window between them.\<close>

definition mixed_attempts :: "(int \<times> reg_data) list" where
  "mixed_attempts =
     [(0, cardiology_request),
      (0, cardiology_request\<lparr>registrationTime := Some ''23:00''\<rparr>),
      (0, cardiology_request)]"

section \<open>The reservation of the Cloud Functions variant\<close>

text \<open>
  The second backend of the repository (the \<open>firebase-functions\<close> webhook) books with
  the same slot transaction but takes the identifier in a transaction of its own, which
  has committed before the slot is looked at:
  \<^verbatim>\<open>
  async function generatePatientId() {
    const counterRef = db.collection("counters").doc("patients");
    let newId;
    await db.runTransaction(async (tx) => {
      const snap = await tx.get(counterRef);
      let current = snap.exists ? snap.data().count : 1000;
      newId = `P${current}`;
      tx.set(counterRef, { count: current + 1 });
    });
    return newId;
  }
  async function attemptRegistration(data) {
    const { department, registrationDate, registrationTime } = data;
    const dept = departmentSlots[department];
    if (!dept) throw new Error("Invalid department.");
    const slotId = `${department}_${registrationDate}_${registrationTime}`;
    const slotRef = db.collection("appointments").doc(slotId);
    const patientId = await generatePatientId();
    await db.runTransaction(async (tx) => {
      const slotSnap = await tx.get(slotRef);
      const currentCount = slotSnap.exists ? (slotSnap.data().count || 0) : 0;
      if (currentCount >= dept.capacity)
        throw new Error(`Slot full for ${department} at ${registrationTime} on ${registrationDate}.`);
      tx.set(patientRef, { patientId, firstName: data.firstName, ..., createdAt: new Date() });
      ... tx.set(slotRef, { ..., count: newCount, patients: newPatients }, { merge: true });
    });
    return patientId;
  }
  \<close>
  Its counter document is the field \<open>patient_counter\<close> of the store here, and its patient
  document is written with the fields of \<open>patient_doc\<close>. The result carries the store in
  both cases, since the counter write stays when the slot transaction aborts. The store
  refuses a patient document with an undefined field.
\<close>

definition generatePatientId_functions :: "store \<Rightarrow> store \<times> string" where
  "generatePatientId_functions st =
     (let current = (case patient_counter st of Some c \<Rightarrow> c | None \<Rightarrow> 1000)
      in (st\<lparr>patient_counter := Some (current + 1)\<rparr>, CHR ''P'' # show_int current))"

definition or_undefined :: "string option \<Rightarrow> string" where
  "or_undefined v = (case v of None \<Rightarrow> ''undefined'' | Some s \<Rightarrow> s)"

definition all_defined :: "reg_data \<Rightarrow> bool" where
  "all_defined d =
     (firstName d \<noteq> None \<and> lastName d \<noteq> None \<and> gender d \<noteq> None \<and> address d \<noteq> None \<and>
      email d \<noteq> None \<and> phoneNumber d \<noteq> None \<and> department d \<noteq> None \<and>
      registrationDate d \<noteq> None \<and> registrationTime d \<noteq> None)"

definition slot_tx_functions ::
    "int \<Rightarrow> reg_data \<Rightarrow> string \<Rightarrow> dept_slot \<Rightarrow> string \<Rightarrow> store \<Rightarrow> string + (tx_write list \<times> unit)" where
  "slot_tx_functions t d dep dept patientId snap =
     (let date = or_undefined (registrationDate d);
          time = or_undefined (registrationTime d);
          slotId = slot_id dep date time;
          slotSnap = appointments snap slotId;
          currentCount = (case slotSnap of Some sl \<Rightarrow> slot_count sl | None \<Rightarrow> 0)
      in if currentCount \<ge> capacity dept
         then Inl (''Slot full for '' @ dep @ '' at '' @ time @ '' on '' @ date @ ''.'')
         else if \<not> all_defined d then Inl ''Cannot use undefined as a Firestore value''
         else Inr ([SetPatient patientId
                      \<lparr>PatientID = patientId,
                       FirstName = or_empty (firstName d),
                       LastName = or_empty (lastName d),
                       Gender = or_empty (gender d),
                       Address = or_empty (address d),
                       Email = or_empty (email d),
                       PhoneNumber = or_empty (phoneNumber d),
                       p_department = dep,
                       RegistrationDate = date,
                       RegistrationTime = time,
                       createdAt = t\<rparr>,
                    SetSlot slotId
                      \<lparr>slot_department = dep,
                       slot_date = date,
                       slot_time = time,
                       slot_capacity = capacity dept,
                       slot_count = currentCount + 1,
                       slot_patients =
                         (case slotSnap of
                            Some sl \<Rightarrow> slot_patients sl @ [patientId]
                          | None \<Rightarrow> [patientId])\<rparr>], ()))"

definition attemptRegistration_functions ::
    "int \<Rightarrow> reg_data \<Rightarrow> store \<Rightarrow> store \<times> (string + string)" where
  "attemptRegistration_functions t d st =
     (case department d of
        None \<Rightarrow> (st, Inl ''Invalid department.'')
      | Some dep \<Rightarrow>
          (case dept_lookup dep of
             None \<Rightarrow> (st, Inl ''Invalid department.'')
           | Some dept \<Rightarrow>
               (case generatePatientId_functions st of
                  (st1, patientId) \<Rightarrow>
                    (case runTransaction (slot_tx_functions t d dep dept patientId) st1 of
                       Inl err \<Rightarrow> (st1, Inl err)
                     | Inr committed \<Rightarrow> (fst committed, Inr patientId)))))"

text \<open>A complete request, and the store after ten bookings of it in that variant.\<close>

definition complete_request :: reg_data where
  "complete_request =
     \<lparr>firstName = Some ''Asha'', lastName = Some ''Rao'', gender = Some ''Female'',
      address = Some ''12 MG Road'', email = Some ''asha@example.com'',
      phoneNumber = Some ''9876543210'', department = Some ''Cardiology'',
      registrationDate = Some ''2025-12-01'', registrationTime = Some ''10:00''\<rparr>"

fun run_attempts_functions :: "(int \<times> reg_data) list \<Rightarrow> store \<Rightarrow> store" where
  "run_attempts_functions [] st = st"
| "run_attempts_functions ((t, d) # rest) st =
     run_attempts_functions rest (fst (attemptRegistration_functions t d st))"

definition ten_bookings_functions :: store where
  "ten_bookings_functions =
     run_attempts_functions (replicate 10 (0, complete_request)) empty_store"

section \<open>What the specification expects of the pre-fill\<close>

text \<open>
  Following the specification's words, "the step flow starting at the first unfilled
  field": the first step, in the order of the flow, whose field holds no value yet.
\<close>

definition spec_first_unfilled_step :: "reg_data \<Rightarrow> string option" where
  "spec_first_unfilled_step d =
     map_option fst
       (List.find (\<lambda>(name, v). \<not> truthy v)
          [(''firstName'', firstName d), (''lastName'', lastName d), (''gender'', gender d),
           (''address'', address d), (''email'', email d), (''phoneNumber'', phoneNumber d),
           (''department'', department d), (''registrationDate'', registrationDate d),
           (''registrationTime'', registrationTime d)])"

section \<open>More sample inputs\<close>

definition other_sender :: string where
  "other_sender = ''919900000002''"



definition full_slot :: slot_doc where
  "full_slot =
     \<lparr>slot_department = ''Cardiology'', slot_date = ''2025-12-01'', slot_time = ''10:00'',
      slot_capacity = 10, slot_count = 10,
      slot_patients = [''P1001'', ''P1002'', ''P1003'', ''P1004'', ''P1005'', ''P1006'',
                       ''P1007'', ''P1008'', ''P1009'', ''P1010'']\<rparr>"


section \<open>Notions for the step-by-step conversation\<close>

text \<open>The store with the sender's session document replaced.\<close>

definition with_session :: "store \<Rightarrow> string \<Rightarrow> session \<Rightarrow> store" where
  "with_session st sender s =
     st\<lparr>registration_states := (registration_states st)(sender \<mapsto> s)\<rparr>"







section \<open>The slot generator of the Cloud Functions variant\<close>

text \<open>
  \<^verbatim>\<open>
  function generateTimeSlots(start, end) {
    const slots = [];
    let current = new Date(`1970-01-01T${start}:00`);
    const endTime = new Date(`1970-01-01T${end}:00`);
    while (current <= endTime) {
      slots.push(current.toTimeString().slice(0, 5));
      current.setHours(current.getHours() + 1);
    }
    return slots;
  }
  \<close>
  A date of 1 January 1970 is known by its minutes since local midnight. The string
  \<open>HH:MM\<close> must have two digits on each side of the colon, an hour below 24 and a minute
  below 60; any other string gives an invalid date, every comparison with which is false,
  so that the loop does not run. \<open>setHours\<close> adds 60 minutes, and \<open>toTimeString\<close> prints the
  hour of the day and the minute.
\<close>

definition parse_clock :: "string \<Rightarrow> int option" where
  "parse_clock s =
     (case s of
        [h1, h2, c, m1, m2] \<Rightarrow>
          if is_digit h1 \<and> is_digit h2 \<and> c = CHR '':'' \<and> is_digit m1 \<and> is_digit m2 \<and>
             digits_val [h1, h2] < 24 \<and> digits_val [m1, m2] < 60
          then Some (int (digits_val [h1, h2]) * 60 + int (digits_val [m1, m2]))
          else None
      | _ \<Rightarrow> None)"

definition clock_label :: "int \<Rightarrow> string" where
  "clock_label m = two_digits ((m div 60) mod 24) @ '':'' @ two_digits (m mod 60)"

function slots_from :: "int \<Rightarrow> int \<Rightarrow> string list" where
  "slots_from current endTime =
     (if current \<le> endTime then clock_label current # slots_from (current + 60) endTime
      else [])"
  by pat_completeness auto
termination
  by (relation "measure (\<lambda>(current, endTime). nat (endTime + 1 - current))") auto

declare slots_from.simps [simp del]

definition generateTimeSlots :: "string \<Rightarrow> string \<Rightarrow> string list" where
  "generateTimeSlots start end_time =
     (case (parse_clock start, parse_clock end_time) of
        (Some current, Some endTime) \<Rightarrow> slots_from current endTime
      | _ \<Rightarrow> [])"

text \<open>The identifiers that a sequence of attempts returns in that variant.\<close>

fun issued_functions :: "(int \<times> reg_data) list \<Rightarrow> store \<Rightarrow> string list" where
  "issued_functions [] st = []"
| "issued_functions ((t, d) # rest) st =
     (case attemptRegistration_functions t d st of
        (st', Inl err) \<Rightarrow> issued_functions rest st'
      | (st', Inr pid) \<Rightarrow> pid # issued_functions rest st')"

definition current_count :: "store \<Rightarrow> int" where
  "current_count st = (case patient_counter st of Some c \<Rightarrow> c | None \<Rightarrow> 1000)"

text \<open>
  Following the claim's words: the text contains one of the five greeting words, in
  either case, as a standalone word, that is, with no word character next to it.
\<close>

definition greeting_words :: "string list" where
  "greeting_words = [''hi'', ''hey'', ''hello'', ''hii'', ''hy'']"

definition contains_greeting_word :: "string \<Rightarrow> bool" where
  "contains_greeting_word text =
     (\<exists>pre w post. text = pre @ w @ post \<and> toLowerCase w \<in> set greeting_words \<and>
        (pre = [] \<or> \<not> is_word (last pre)) \<and> (post = [] \<or> \<not> is_word (hd post)))"

text \<open>The character before the position reached after reading \<open>a\<close>.\<close>

fun last_before :: "char option \<Rightarrow> string \<Rightarrow> char option" where
  "last_before prev [] = prev"
| "last_before prev (c # cs) = last_before (Some c) cs"

section \<open>Verified properties\<close>

subsection \<open>Time-slot generator\<close>

lemma hour_labels_day_sorted: "sorted_wrt js_str_less (map hour_label [0..23])"
  by code_simp

lemma hour_labels_day_shape:
  "\<forall>h \<in> set [0..23]. length (hour_label h) = 5 \<and> is_digit (hour_label h ! 0) \<and>
     is_digit (hour_label h ! 1) \<and> drop 2 (hour_label h) = '':00''"
  by code_simp

lemma upto_day_split:
  assumes "0 \<le> s" "s \<le> e" "e \<le> (23::int)"
  shows "[0..23] = [0..s - 1] @ [s..e] @ [e + 1..23]"
proof -
  have "[0..23] = [0..s - 1] @ [s..23]" using assms by (intro upto_split1) auto
  also have "[s..23] = [s..e] @ [e + 1..23]" using assms by (intro upto_split2) auto
  finally show ?thesis .
qed

lemma hour_labels_sorted:
  assumes "0 \<le> s" "s \<le> e" "e \<le> (23::int)"
  shows "sorted_wrt js_str_less (map hour_label [s..e])"
proof -
  have "sorted_wrt js_str_less (map hour_label ([0..s - 1] @ [s..e] @ [e + 1..23]))"
    using hour_labels_day_sorted upto_day_split [OF assms] by simp
  then show ?thesis by (simp add: sorted_wrt_append)
qed

text \<open>Every window of the catalog has readable hours with open before close.\<close>

lemma catalog_windows:
  "\<forall>(name, dept) \<in> set departmentSlots.
     (case (hour_of (fst (times dept)), hour_of (snd (times dept))) of
        (Some s, Some e) \<Rightarrow> 0 \<le> s \<and> s \<le> e \<and> e \<le> 23
      | _ \<Rightarrow> False)"
  by code_simp

text \<open>
  Claim C4. For a window whose opening hour \<open>s\<close> and closing hour \<open>e\<close> satisfy
  \<open>0 \<le> s \<le> e \<le> 23\<close>, \<open>hoursBetween\<close> returns the labels of the hours \<open>s, s + 1, ..., e\<close>
  in this order: \<open>e - s + 1\<close> strings, each two digits followed by \<open>:00\<close>, strictly
  increasing as strings. The result is a function of the two arguments alone, so two
  calls on the same window agree.
\<close>

theorem hoursBetween_window:
  assumes "hour_of opening = Some s" and "hour_of closing = Some e"
    and "0 \<le> s" and "s \<le> e" and "e \<le> 23"
  shows "hoursBetween opening closing = map hour_label [s..e] \<and>
         length (hoursBetween opening closing) = nat (e - s + 1) \<and>
         (\<forall>t \<in> set (hoursBetween opening closing).
            length t = 5 \<and> is_digit (t ! 0) \<and> is_digit (t ! 1) \<and> drop 2 t = '':00'') \<and>
         sorted_wrt js_str_less (hoursBetween opening closing)"
proof -
  have eq: "hoursBetween opening closing = map hour_label [s..e]"
    using assms(1,2) by (simp add: hoursBetween_def)
  have sub: "set [s..e] \<subseteq> set [0..23]" using assms(3-5) by auto
  have shape: "\<forall>t \<in> set (map hour_label [s..e]).
            length t = 5 \<and> is_digit (t ! 0) \<and> is_digit (t ! 1) \<and> drop 2 t = '':00''"
    using hour_labels_day_shape sub by (simp only: set_map ball_simps) blast
  show ?thesis using eq shape hour_labels_sorted [OF assms(3-5)] by simp
qed

theorem hoursBetween_window_witness:
  "hour_of ''09:00'' = Some 9 \<and> hour_of ''12:00'' = Some 12 \<and>
   hoursBetween ''09:00'' ''12:00'' = [''09:00'', ''10:00'', ''11:00'', ''12:00''] \<and>
   length (hoursBetween ''09:00'' ''12:00'') = 4 \<and>
   sorted_wrt js_str_less (hoursBetween ''09:00'' ''12:00'')"
proof -
  have a: "hour_of ''09:00'' = Some 9" by code_simp
  have b: "hour_of ''12:00'' = Some 12" by code_simp
  have c: "map hour_label [9..12] = [''09:00'', ''10:00'', ''11:00'', ''12:00'']" by code_simp
  show ?thesis using hoursBetween_window [OF a b] a b c by simp
qed

subsection \<open>Conversation state: expiry, greeting, rejected answers\<close>

lemma getState_live:
  "registration_states st sender = Some s \<Longrightarrow> live t s \<Longrightarrow> getState t sender st = (s, st)"
  by (auto simp: getState_def live_def split: option.splits)

lemma getState_expired:
  "registration_states st sender = Some s \<Longrightarrow> updatedAt s = Some u \<Longrightarrow> t - u > 30 * 60 * 1000
   \<Longrightarrow> getState t sender st = (blank_state, resetState sender st)"
  by (auto simp: getState_def)

lemma getState_absent:
  "registration_states st sender = None \<Longrightarrow> getState t sender st = (blank_state, st)"
  by (auto simp: getState_def)

text \<open>
  Claim C6. A stored session whose \<open>updatedAt\<close> is more than 30 minutes before the read is
  deleted by \<open>getState\<close>, which returns the blank state, exactly as for a sender with no
  document; a message that is not a greeting is then handled as on the store without the
  session. A session of age 30 minutes or less is returned as stored and the store is
  not changed. The test is part of \<open>getState\<close>; the model has no other operation that
  removes a session by age.
\<close>

theorem getState_idle_expiry:
  assumes "registration_states st sender = Some s" and "updatedAt s = Some u"
  shows "(t - u > 30 * 60 * 1000 \<longrightarrow>
            getState t sender st = (blank_state, resetState sender st) \<and>
            registration_states (snd (getState t sender st)) sender = None \<and>
            getState t sender st = getState t sender (resetState sender st) \<and>
            (\<forall>e raw. now e = t \<and> \<not> isGreeting (trim raw) \<longrightarrow>
               processMessage e sender raw st = processMessage e sender raw (resetState sender st))) \<and>
         (t - u \<le> 30 * 60 * 1000 \<longrightarrow> getState t sender st = (s, st))"
proof (intro conjI impI)
  assume old: "t - u > 30 * 60 * 1000"
  show a: "getState t sender st = (blank_state, resetState sender st)"
    using assms old by (rule getState_expired)
  show "registration_states (snd (getState t sender st)) sender = None"
    by (simp add: a resetState_def)
  have r: "registration_states (resetState sender st) sender = None"
    by (simp add: resetState_def)
  show b: "getState t sender st = getState t sender (resetState sender st)"
    using getState_absent [OF r] a by (simp add: resetState_def)
  show "\<forall>e raw. now e = t \<and> \<not> isGreeting (trim raw) \<longrightarrow>
               processMessage e sender raw st = processMessage e sender raw (resetState sender st)"
    using b by (simp add: processMessage_def)
next
  assume "t - u \<le> 30 * 60 * 1000"
  then show "getState t sender st = (s, st)"
    using assms by (auto simp: getState_def)
qed

theorem getState_idle_expiry_witness:
  "registration_states sample_store sample_sender = Some sample_session \<and>
   updatedAt sample_session = Some 0 \<and>
   getState (29 * 60 * 1000) sample_sender sample_store = (sample_session, sample_store) \<and>
   getState (30 * 60 * 1000) sample_sender sample_store = (sample_session, sample_store) \<and>
   getState (31 * 60 * 1000) sample_sender sample_store =
     (blank_state, resetState sample_sender sample_store) \<and>
   registration_states (snd (getState (31 * 60 * 1000) sample_sender sample_store)) sample_sender = None"
proof -
  have a: "registration_states sample_store sample_sender = Some sample_session"
    by (simp add: sample_store_def)
  have b: "updatedAt sample_session = Some 0" by (simp add: sample_session_def)
  show ?thesis
    using getState_idle_expiry [OF a b, of "29 * 60 * 1000"]
      getState_idle_expiry [OF a b, of "30 * 60 * 1000"]
      getState_idle_expiry [OF a b, of "31 * 60 * 1000"] a b
    by (simp add: resetState_def)
qed

text \<open>
  Claim C10. A message that \<open>isGreeting\<close> accepts (after trimming) is answered with the
  welcome text and nothing else happens: the store that comes back is the store that went
  in, whatever it holds for the sender, so no state is created and a session in the
  middle of the flow keeps its step, its data and its time stamp.
\<close>

theorem greeting_short_circuit:
  assumes "isGreeting (trim raw)"
  shows "processMessage e sender raw st = \<lparr>db = st, sent = [welcome_text], thrown = None\<rparr>"
  using assms by (simp add: processMessage_def reply_def)

theorem greeting_short_circuit_witness:
  "isGreeting (trim '' Hey, 2 '') \<and> gender_answer (trim '' Hey, 2 '') = Some ''Female'' \<and>
   processMessage sample_env sample_sender '' Hey, 2 '' sample_store =
     \<lparr>db = sample_store, sent = [welcome_text], thrown = None\<rparr> \<and>
   registration_states (db (processMessage sample_env sample_sender '' Hey, 2 '' sample_store))
     sample_sender = Some sample_session \<and>
   isGreeting (trim ''HELLO'') \<and>
   db (processMessage sample_env ''919900000002'' ''HELLO'' empty_store) = empty_store"
proof -
  have a: "isGreeting (trim '' Hey, 2 '')" by code_simp
  have b: "gender_answer (trim '' Hey, 2 '') = Some ''Female''" by code_simp
  have c: "isGreeting (trim ''HELLO'')" by code_simp
  have d: "registration_states sample_store sample_sender = Some sample_session"
    by (simp add: sample_store_def)
  show ?thesis
    using greeting_short_circuit [OF a, of sample_env sample_sender sample_store]
      greeting_short_circuit [OF c, of sample_env "''919900000002''" empty_store] a b c d
    by simp
qed

lemma answer_rejected_step:
  "answer_rejected e s text \<Longrightarrow> truthy (step s)"
  by (auto simp: answer_rejected_def truthy_def split: if_splits)

lemma step_flow_rejected:
  assumes "answer_rejected e s text"
  shows "\<exists>msg. step_flow e sender text s st = reply st msg"
proof -
  consider (g) "step s = Some ''gender''" | (m) "step s = Some ''email''"
    | (p) "step s = Some ''phoneNumber''" | (d) "step s = Some ''department''"
    | (rd) "step s = Some ''registrationDate''" | (rt) "step s = Some ''registrationTime''"
    using assms by (auto simp: answer_rejected_def split: if_splits)
  then show ?thesis
  proof cases
    case g
    then show ?thesis using assms
      by (simp add: answer_rejected_def step_flow_def step_gender_def) blast
  next
    case m
    then show ?thesis using assms
      by (simp add: answer_rejected_def step_flow_def step_email_def) blast
  next
    case p
    then show ?thesis using assms
      by (simp add: answer_rejected_def step_flow_def step_phoneNumber_def) blast
  next
    case d
    then show ?thesis using assms
      by (simp add: answer_rejected_def step_flow_def step_department_def) blast
  next
    case rd
    then show ?thesis using assms
      by (auto simp: answer_rejected_def step_flow_def step_registrationDate_def
          split: option.splits)
  next
    case rt
    then show ?thesis using assms
      by (auto simp: answer_rejected_def step_flow_def step_registrationTime_def
          split: option.splits)
  qed
qed

lemma rejected_answer_keeps_store:
  assumes "registration_states st sender = Some s" and "live (now e) s"
    and "answer_rejected e s (trim raw)"
  shows "\<exists>msg. processMessage e sender raw st = reply st msg"
proof (cases "isGreeting (trim raw)")
  case True
  then show ?thesis by (simp add: processMessage_def) blast
next
  case False
  have g: "getState (now e) sender st = (s, st)" using assms(1,2) by (rule getState_live)
  have t: "truthy (step s)" using assms(3) by (rule answer_rejected_step)
  show ?thesis using False g t step_flow_rejected [OF assms(3)]
    by (simp add: processMessage_def)
qed

text \<open>
  Claim C5. Let a sender's session be at a validating step (gender, email, phoneNumber,
  department, registrationDate or registrationTime), and let every one of a list of
  messages arrive while the session is live and carry an answer that the step's check
  rejects. Then each message leaves the whole store as it was (so the step, the
  collected fields and the stored record, time stamp included, are untouched), sends
  exactly one text and throws nothing, and after all of them the store is still the
  initial one.
\<close>

theorem invalid_answers_idempotent:
  assumes "registration_states st sender = Some s"
    and "\<forall>(e, raw) \<in> set ms. live (now e) s \<and> answer_rejected e s (trim raw)"
  shows "run_messages sender ms st = st \<and>
         (\<forall>(e, raw) \<in> set ms.
            db (processMessage e sender raw st) = st \<and>
            thrown (processMessage e sender raw st) = None \<and>
            length (sent (processMessage e sender raw st)) = 1)"
proof -
  have one: "db (processMessage e sender raw st) = st \<and>
            thrown (processMessage e sender raw st) = None \<and>
            length (sent (processMessage e sender raw st)) = 1"
    if "(e, raw) \<in> set ms" for e raw
  proof -
    have "live (now e) s" "answer_rejected e s (trim raw)" using assms(2) that by auto
    from rejected_answer_keeps_store [OF assms(1) this]
    obtain msg where "processMessage e sender raw st = reply st msg" by blast
    then show ?thesis by (simp add: reply_def)
  qed
  have "run_messages sender ms' st = st" if "set ms' \<subseteq> set ms" for ms'
    using that
  proof (induction ms')
    case Nil
    show ?case by simp
  next
    case (Cons m ms')
    obtain e raw where m: "m = (e, raw)" by (cases m)
    have "db (processMessage e sender raw st) = st" using one [of e raw] Cons.prems m by auto
    then show ?case using Cons m by simp
  qed
  then have "run_messages sender ms st = st" by simp
  then show ?thesis using one by auto
qed

theorem invalid_answers_idempotent_witness:
  "registration_states sample_store sample_sender = Some sample_session \<and>
   live (now sample_env) sample_session \<and>
   answer_rejected sample_env sample_session (trim ''maybe'') \<and>
   answer_rejected sample_env sample_session (trim '' 7 '') \<and>
   run_messages sample_sender
     [(sample_env, ''maybe''), (sample_env, '' 7 ''), (sample_env, ''maybe'')] sample_store =
     sample_store \<and>
   db (processMessage sample_env sample_sender ''maybe'' sample_store) = sample_store \<and>
   length (sent (processMessage sample_env sample_sender '' 7 '' sample_store)) = 1"
proof -
  have a: "registration_states sample_store sample_sender = Some sample_session"
    by (simp add: sample_store_def)
  have b: "live (now sample_env) sample_session" by code_simp
  have c: "answer_rejected sample_env sample_session (trim ''maybe'')" by code_simp
  have d: "answer_rejected sample_env sample_session (trim '' 7 '')" by code_simp
  have h: "\<forall>(e, raw) \<in> set [(sample_env, ''maybe''), (sample_env, '' 7 ''), (sample_env, ''maybe'')].
             live (now e) sample_session \<and> answer_rejected e sample_session (trim raw)"
    using b c d by simp
  show ?thesis using invalid_answers_idempotent [OF a h] a b c d by simp
qed

subsection \<open>Slot reservation: the ledger invariant\<close>

lemma attemptRegistration_Inr:
  assumes "attemptRegistration t d st = Inr (st', pid)"
  obtains dep dept date time where
    "department d = Some dep" "dept_lookup dep = Some dept"
    "registrationDate d = Some date" "registrationTime d = Some time"
    "time \<in> set (dept_times dept)"
    "slot_count_of st (slot_id dep date time) < capacity dept"
    "pid = CHR ''P'' # show_int (next_count (patient_counter st))"
    "st' = st\<lparr>patient_counter := Some (next_count (patient_counter st)),
              patients := (patients st)(pid \<mapsto> new_patient t d pid dep date time),
              appointments := (appointments st)(slot_id dep date time \<mapsto>
                                 new_slot st dept pid dep date time)\<rparr>"
  using assms
  by (auto simp: attemptRegistration_def runTransaction_def registration_tx_def
      generatePatientId_def slot_count_of_def slot_patients_of_def new_patient_def
      new_slot_def Let_def
      split: option.splits if_splits sum.splits)

lemma slot_full_aborts:
  assumes "department d = Some dep" "dept_lookup dep = Some dept"
    "registrationDate d = Some date" "registrationTime d = Some time"
    "time \<in> set (dept_times dept)"
    "capacity dept \<le> slot_count_of st (slot_id dep date time)"
  shows "attemptRegistration t d st = Inl ''Slot full''"
proof -
  have "dep \<noteq> []" using assms(2) by (auto simp: dept_lookup_def departmentSlots_def split: if_splits)
  then show ?thesis using assms
    by (simp add: attemptRegistration_def runTransaction_def registration_tx_def
      slot_count_of_def Let_def)
qed

lemma catalog_entry:
  assumes "dept_lookup dep = Some dept"
  shows "0 < capacity dept \<and> CHR ''_'' \<notin> set dep"
  using assms by (auto simp: dept_lookup_def departmentSlots_def split: if_splits)

lemma slot_dept_slot_id:
  assumes "CHR ''_'' \<notin> set dep"
  shows "slot_dept (slot_id dep date time) = dep"
proof -
  have "takeWhile (\<lambda>c. c \<noteq> CHR ''_'') (dep @ CHR ''_'' # (date @ ''_'' @ time)) = dep"
    using assms by (subst takeWhile_append2) auto
  then show ?thesis by (simp add: slot_dept_def slot_id_def)
qed

lemma ledger_ok_count:
  "ledger_ok st \<Longrightarrow> appointments st sid = Some sl \<Longrightarrow>
   slot_count sl = int (length (slot_patients sl))"
  unfolding ledger_ok_def by blast

lemma ledger_ok_capacity:
  "ledger_ok st \<Longrightarrow> appointments st sid = Some sl \<Longrightarrow>
   dept_lookup (slot_dept sid) = Some dept \<Longrightarrow> slot_count sl \<le> capacity dept"
  unfolding ledger_ok_def by blast

lemma ledger_ok_listed:
  "ledger_ok st \<Longrightarrow> patients st pid = Some p \<Longrightarrow>
   \<exists>sl. appointments st (patient_key p) = Some sl \<and> pid \<in> set (slot_patients sl)"
  unfolding ledger_ok_def by blast

text \<open>
  A store update of the shape both reservations perform keeps the ledger invariant:
  any counter, one patient record for the slot, and the slot document with one more
  occupant, when the slot had room.
\<close>

lemma ledger_ok_booking:
  assumes ok: "ledger_ok st" and dl: "dept_lookup dep = Some dept"
    and free: "slot_count_of st (slot_id dep date time) < capacity dept"
    and key: "patient_key p = slot_id dep date time"
  shows "ledger_ok (st\<lparr>patient_counter := c,
              patients := (patients st)(pid \<mapsto> p),
              appointments := (appointments st)(slot_id dep date time \<mapsto>
                                 new_slot st dept pid dep date time)\<rparr>)"
    (is "ledger_ok ?st'")
proof -
  let ?sid = "slot_id dep date time"
  let ?new = "new_slot st dept pid dep date time"
  have sd: "slot_dept ?sid = dep" using catalog_entry [OF dl] by (simp add: slot_dept_slot_id)
  have cnt: "slot_count ?new = int (length (slot_patients ?new))"
    using ledger_ok_count [OF ok]
    by (auto simp: new_slot_def slot_count_of_def slot_patients_of_def split: option.splits)
  have cap: "slot_count ?new \<le> capacity dept" using free by (simp add: new_slot_def)
  have mem: "pid \<in> set (slot_patients ?new)" by (simp add: new_slot_def)
  have keep: "set (slot_patients sl) \<subseteq> set (slot_patients ?new)"
    if "appointments st ?sid = Some sl" for sl
    using that by (auto simp: new_slot_def slot_patients_of_def)
  show ?thesis
    unfolding ledger_ok_def
  proof (intro conjI allI impI)
    fix sid sl
    assume a: "appointments ?st' sid = Some sl"
    show "slot_count sl = int (length (slot_patients sl))"
      using a cnt ledger_ok_count [OF ok] by (auto split: if_splits)
  next
    fix sid sl dept'
    assume a: "appointments ?st' sid = Some sl" and b: "dept_lookup (slot_dept sid) = Some dept'"
    show "slot_count sl \<le> capacity dept'"
    proof (cases "sid = ?sid")
      case True
      then have "dept' = dept" using b sd dl by simp
      then show ?thesis using a True cap by simp
    next
      case False
      then have "appointments st sid = Some sl" using a by simp
      then show ?thesis using b ok by (rule ledger_ok_capacity [rotated])
    qed
  next
    fix q r
    assume a: "patients ?st' q = Some r"
    show "\<exists>sl. appointments ?st' (patient_key r) = Some sl \<and> q \<in> set (slot_patients sl)"
    proof (cases "q = pid")
      case True
      then show ?thesis using a key mem by auto
    next
      case False
      then have "patients st q = Some r" using a by simp
      then obtain sl where sl: "appointments st (patient_key r) = Some sl" "q \<in> set (slot_patients sl)"
        using ledger_ok_listed [OF ok] by blast
      show ?thesis
      proof (cases "patient_key r = ?sid")
        case True
        then show ?thesis using sl keep [of sl] by auto
      next
        case False
        then show ?thesis using sl by auto
      qed
    qed
  qed
qed

lemma ledger_ok_step:
  assumes ok: "ledger_ok st" and att: "attemptRegistration t d st = Inr (st', pid)"
  shows "ledger_ok st'"
proof -
  from att obtain dep dept date time where
    dl: "dept_lookup dep = Some dept"
    and free: "slot_count_of st (slot_id dep date time) < capacity dept"
    and st': "st' = st\<lparr>patient_counter := Some (next_count (patient_counter st)),
              patients := (patients st)(pid \<mapsto> new_patient t d pid dep date time),
              appointments := (appointments st)(slot_id dep date time \<mapsto>
                                 new_slot st dept pid dep date time)\<rparr>"
    by (rule attemptRegistration_Inr)
  have key: "patient_key (new_patient t d pid dep date time) = slot_id dep date time"
    by (simp add: patient_key_def new_patient_def)
  show ?thesis unfolding st' using ok dl free key by (rule ledger_ok_booking)
qed

lemma ledger_ok_run:
  "ledger_ok st \<Longrightarrow> ledger_ok (fst (run_attempts attempts st))"
proof (induction attempts arbitrary: st)
  case Nil
  then show ?case by simp
next
  case (Cons a attempts)
  obtain t d where a: "a = (t, d)" by (cases a)
  show ?case
  proof (cases "attemptRegistration t d st")
    case (Inl err)
    then show ?thesis using Cons a by simp
  next
    case (Inr r)
    obtain st' pid where r: "r = (st', pid)" by (cases r)
    have "ledger_ok st'" using Cons.prems Inr r by (auto intro: ledger_ok_step)
    then have "ledger_ok (fst (run_attempts attempts st'))" by (rule Cons.IH)
    then show ?thesis using Inr r a by (auto split: prod.splits)
  qed
qed

lemma ledger_ok_empty: "ledger_ok empty_store"
  by (simp add: ledger_ok_def empty_store_def)

lemma ledger_ok_bound:
  assumes ok: "ledger_ok st" and dl: "dept_lookup dep = Some dept"
  shows "finite (booked st dep date time) \<and>
         int (card (booked st dep date time)) \<le> slot_count_of st (slot_id dep date time) \<and>
         slot_count_of st (slot_id dep date time) \<le> capacity dept"
proof (cases "appointments st (slot_id dep date time)")
  case None
  have "booked st dep date time = {}"
    using ledger_ok_listed [OF ok] None by (force simp: booked_def patient_key_def)
  then show ?thesis using None catalog_entry [OF dl] by (simp add: slot_count_of_def)
next
  case (Some sl)
  have sub: "booked st dep date time \<subseteq> set (slot_patients sl)"
    using ledger_ok_listed [OF ok] Some by (force simp: booked_def patient_key_def)
  then have fin: "finite (booked st dep date time)" by (rule finite_subset) simp
  have "card (booked st dep date time) \<le> card (set (slot_patients sl))"
    using sub by (intro card_mono) simp_all
  also have "\<dots> \<le> length (slot_patients sl)" by (rule card_length)
  finally have c: "int (card (booked st dep date time)) \<le> int (length (slot_patients sl))" by simp
  have l: "slot_count sl = int (length (slot_patients sl))" using ok Some by (rule ledger_ok_count)
  have "slot_dept (slot_id dep date time) = dep" using catalog_entry [OF dl] by (simp add: slot_dept_slot_id)
  then have "slot_count sl \<le> capacity dept" using ledger_ok_capacity [OF ok Some] dl by simp
  then show ?thesis using fin c l Some by (simp add: slot_count_of_def)
qed

lemma success_effect:
  assumes att: "attemptRegistration t d st = Inr (st', pid)"
    and d: "department d = Some dep" "registrationDate d = Some date" "registrationTime d = Some time"
  shows "slot_count_of st' (slot_id dep date time) = slot_count_of st (slot_id dep date time) + 1 \<and>
         slot_patients_of st' (slot_id dep date time) =
           slot_patients_of st (slot_id dep date time) @ [pid] \<and>
         booked st' dep date time = insert pid (booked st dep date time)"
proof -
  from att obtain dep' dept date' time' where
    e: "department d = Some dep'" "registrationDate d = Some date'" "registrationTime d = Some time'"
    and st': "st' = st\<lparr>patient_counter := Some (next_count (patient_counter st)),
              patients := (patients st)(pid \<mapsto> new_patient t d pid dep' date' time'),
              appointments := (appointments st)(slot_id dep' date' time' \<mapsto>
                                 new_slot st dept pid dep' date' time')\<rparr>"
    by (rule attemptRegistration_Inr)
  have same: "dep' = dep" "date' = date" "time' = time" using d e by simp_all
  have "booked st' dep date time = insert pid (booked st dep date time)"
    by (auto simp: booked_def st' same new_patient_def)
  then show ?thesis
    by (simp add: st' same slot_count_of_def slot_patients_of_def new_slot_def)
qed

text \<open>
  Claim C1. Start from a store that satisfies the ledger invariant (the empty store does)
  and run any sequence of reservation attempts, each as one transaction; the store
  serialises concurrent transactions, so every interleaving has the effect of such a
  sequence. In the store reached the invariant holds again, and for every department of
  the catalog, every date and every time: the slot's count is at most the department's
  capacity, and so is the number of patient records with that department, date and time;
  an attempt on a slot whose count has reached the capacity fails with \<open>Slot full\<close>; and a
  successful attempt raises the slot's count by one, appends the new identifier to the
  slot's occupant list, and adds that identifier to the slot's patient records.
\<close>

theorem capacity_invariant:
  assumes "ledger_ok st0" and "dept_lookup dep = Some dept"
    and "fst (run_attempts attempts st0) = st"
  shows "ledger_ok st \<and>
         slot_count_of st (slot_id dep date time) \<le> capacity dept \<and>
         finite (booked st dep date time) \<and>
         int (card (booked st dep date time)) \<le> capacity dept \<and>
         (\<forall>t d. department d = Some dep \<and> registrationDate d = Some date \<and>
                 registrationTime d = Some time \<and> time \<in> set (dept_times dept) \<and>
                 capacity dept \<le> slot_count_of st (slot_id dep date time) \<longrightarrow>
                 attemptRegistration t d st = Inl ''Slot full'') \<and>
         (\<forall>t d st' pid. attemptRegistration t d st = Inr (st', pid) \<and>
                 department d = Some dep \<and> registrationDate d = Some date \<and>
                 registrationTime d = Some time \<longrightarrow>
                 slot_count_of st' (slot_id dep date time) =
                   slot_count_of st (slot_id dep date time) + 1 \<and>
                 slot_patients_of st' (slot_id dep date time) =
                   slot_patients_of st (slot_id dep date time) @ [pid] \<and>
                 booked st' dep date time = insert pid (booked st dep date time) \<and>
                 int (card (booked st' dep date time)) \<le> capacity dept)"
proof -
  have ok: "ledger_ok st" using ledger_ok_run [OF assms(1), of attempts] assms(3) by simp
  note b = ledger_ok_bound [OF ok assms(2), of date time]
  have full: "attemptRegistration t d st = Inl ''Slot full''"
    if "department d = Some dep" "registrationDate d = Some date"
       "registrationTime d = Some time" "time \<in> set (dept_times dept)"
       "capacity dept \<le> slot_count_of st (slot_id dep date time)" for t d
    using that assms(2) by (intro slot_full_aborts) auto
  have succ: "slot_count_of st' (slot_id dep date time) =
                   slot_count_of st (slot_id dep date time) + 1 \<and>
                 slot_patients_of st' (slot_id dep date time) =
                   slot_patients_of st (slot_id dep date time) @ [pid] \<and>
                 booked st' dep date time = insert pid (booked st dep date time) \<and>
                 int (card (booked st' dep date time)) \<le> capacity dept"
    if a: "attemptRegistration t d st = Inr (st', pid)" and
       d: "department d = Some dep" "registrationDate d = Some date"
          "registrationTime d = Some time" for t d st' pid
  proof -
    have "ledger_ok st'" using ok a by (rule ledger_ok_step)
    from ledger_ok_bound [OF this assms(2), of date time] success_effect [OF a d]
    show ?thesis by simp
  qed
  have c1: "slot_count_of st (slot_id dep date time) \<le> capacity dept" using b by simp
  have c2: "finite (booked st dep date time)" using b by simp
  have c3: "int (card (booked st dep date time)) \<le> capacity dept" using b by linarith
  show ?thesis using ok c1 c2 c3 full succ by blast
qed

theorem capacity_invariant_witness:
  "ledger_ok empty_store \<and>
   dept_lookup ''Cardiology'' = Some \<lparr>times = (''09:00'', ''12:00''), capacity = 10\<rparr> \<and>
   snd (run_attempts eleven_attempts empty_store) =
     [''P1001'', ''P1002'', ''P1003'', ''P1004'', ''P1005'', ''P1006'', ''P1007'', ''P1008'',
      ''P1009'', ''P1010''] \<and>
   slot_count_of (fst (run_attempts eleven_attempts empty_store))
     (slot_id ''Cardiology'' ''2025-12-01'' ''10:00'') = 10 \<and>
   int (card (booked (fst (run_attempts eleven_attempts empty_store))
     ''Cardiology'' ''2025-12-01'' ''10:00'')) \<le> 10 \<and>
   attemptRegistration 0 cardiology_request (fst (run_attempts eleven_attempts empty_store)) =
     Inl ''Slot full''"
proof -
  let ?cardio = "\<lparr>times = (''09:00'', ''12:00''), capacity = 10\<rparr>"
  let ?st = "fst (run_attempts eleven_attempts empty_store)"
  have b: "dept_lookup ''Cardiology'' = Some ?cardio"
    by (simp add: dept_lookup_def departmentSlots_def)
  have c: "slot_count_of ?st (slot_id ''Cardiology'' ''2025-12-01'' ''10:00'') = 10"
    by code_simp
  have d: "''10:00'' \<in> set (dept_times ?cardio)" by code_simp
  have e: "department cardiology_request = Some ''Cardiology''"
    "registrationDate cardiology_request = Some ''2025-12-01''"
    "registrationTime cardiology_request = Some ''10:00''"
    by (simp_all add: cardiology_request_def empty_data_def)
  have i: "snd (run_attempts eleven_attempts empty_store) =
     [''P1001'', ''P1002'', ''P1003'', ''P1004'', ''P1005'', ''P1006'', ''P1007'', ''P1008'',
      ''P1009'', ''P1010'']"
    by code_simp
  note t = capacity_invariant [OF ledger_ok_empty b refl, of eleven_attempts "''2025-12-01''" "''10:00''"]
  have f: "attemptRegistration 0 cardiology_request ?st = Inl ''Slot full''"
    using t c d e by simp
  have g: "int (card (booked ?st ''Cardiology'' ''2025-12-01'' ''10:00'')) \<le> 10"
    using t by simp
  show ?thesis using ledger_ok_empty b c f g i by simp
qed

subsection \<open>Patient identifiers\<close>


lemma digit_char_table:
  "\<forall>d \<in> set [0 ..< 10]. is_digit (digit_char d) \<and> digit_val (digit_char d) = d \<and>
     \<not> is_space (digit_char d) \<and> digit_char d \<noteq> CHR ''-'' \<and> digit_char d \<noteq> CHR ''+''"
  by code_simp

lemma digit_char_mod: "digit_char d = digit_char (d mod 10)"
  by (simp add: digit_char_def)

lemma digit_char_props:
  "is_digit (digit_char d) \<and> digit_val (digit_char d) = d mod 10 \<and>
   \<not> is_space (digit_char d) \<and> digit_char d \<noteq> CHR ''-'' \<and> digit_char d \<noteq> CHR ''+''"
proof -
  have "d mod 10 \<in> set [0 ..< 10]" by simp
  then show ?thesis using digit_char_table digit_char_mod [of d] by (metis mod_mod_trivial)
qed

lemma show_nat_digits: "show_nat n \<noteq> [] \<and> (\<forall>c \<in> set (show_nat n). is_digit c)"
proof (induction n rule: show_nat.induct)
  case (1 n)
  show ?case
  proof (cases "n < 10")
    case True
    then show ?thesis using digit_char_props [of n] by (subst (1 2) show_nat.simps) simp
  next
    case False
    then show ?thesis using 1 digit_char_props [of n] by (subst (1 2) show_nat.simps) auto
  qed
qed

lemma digits_val_snoc: "digits_val (ds @ [c]) = 10 * digits_val ds + digit_val c"
  by (simp add: digits_val_def)

lemma digits_val_show_nat: "digits_val (show_nat n) = n"
proof (induction n rule: show_nat.induct)
  case (1 n)
  show ?case
  proof (cases "n < 10")
    case True
    then show ?thesis using digit_char_props [of n]
      by (subst show_nat.simps) (simp add: digits_val_def)
  next
    case False
    then have "digits_val (show_nat (n div 10)) = n div 10" using 1 by simp
    then show ?thesis using False digit_char_props [of n]
      by (subst show_nat.simps) (simp add: digits_val_snoc)
  qed
qed

lemma parseInt_digits:
  assumes "ds \<noteq> []" and "\<forall>c \<in> set ds. is_digit c"
  shows "parseInt ds = Some (int (digits_val ds)) \<and>
         parseInt (CHR ''-'' # ds) = Some (- int (digits_val ds))"
proof -
  obtain c cs where s: "ds = c # cs" using assms(1) by (cases ds) auto
  have c: "is_digit c" using assms(2) s by simp
  have ns: "\<not> is_space c" "c \<noteq> CHR ''-''" "c \<noteq> CHR ''+''"
    using c by (auto simp: is_digit_def is_space_def)
  have "\<forall>x \<in> set cs. is_digit x" using assms(2) s by simp
  then have tw: "takeWhile is_digit cs = cs" by (simp add: takeWhile_eq_all_conv)
  have sp: "\<not> is_space (CHR ''-'')" by (simp add: is_space_def)
  show ?thesis unfolding s parseInt_def Let_def using ns c sp by (simp add: tw)
qed

lemma parseInt_show_int: "parseInt (show_int n) = Some n"
proof -
  have d: "show_nat k \<noteq> []" "\<forall>c \<in> set (show_nat k). is_digit c" for k
    using show_nat_digits [of k] by simp_all
  show ?thesis
  proof (cases "n < 0")
    case False
    then show ?thesis using parseInt_digits [OF d, of "nat n"] digits_val_show_nat [of "nat n"]
      by (simp add: show_int_def)
  next
    case True
    then show ?thesis
      using parseInt_digits [OF d, of "nat (- n)"] digits_val_show_nat [of "nat (- n)"]
      by (simp add: show_int_def)
  qed
qed

lemma patient_number_id: "patient_number (patient_id_of n) = Some n"
  by (simp add: patient_number_def patient_id_of_def parseInt_show_int)

lemma next_count_grows: "n < next_count (Some n)"
  by (simp add: next_count_def)

lemma run_attempts_numbers:
  "run_attempts attempts st = (st', ids) \<Longrightarrow>
   \<exists>ns. ids = map patient_id_of ns \<and> sorted_wrt (<) ns \<and>
        (\<forall>n \<in> set ns. next_count (patient_counter st) \<le> n)"
proof (induction attempts arbitrary: st st' ids)
  case Nil
  then show ?case by simp
next
  case (Cons a attempts)
  obtain t d where a: "a = (t, d)" by (cases a)
  show ?case
  proof (cases "attemptRegistration t d st")
    case (Inl err)
    then have "run_attempts attempts st = (st', ids)" using Cons.prems a by simp
    then show ?thesis by (rule Cons.IH)
  next
    case (Inr r)
    obtain st1 pid where r: "r = (st1, pid)" by (cases r)
    obtain ids1 where rest: "run_attempts attempts st1 = (st', ids1)" and ids: "ids = pid # ids1"
      using Cons.prems a Inr r by (auto split: prod.splits)
    let ?n = "next_count (patient_counter st)"
    have att: "attemptRegistration t d st = Inr (st1, pid)" using Inr r by simp
    have pid: "pid = patient_id_of ?n" and c1: "patient_counter st1 = Some ?n"
      by (rule attemptRegistration_Inr [OF att], simp add: patient_id_of_def)
         (rule attemptRegistration_Inr [OF att], simp)
    from Cons.IH [OF rest] obtain ns where
      ns: "ids1 = map patient_id_of ns" "sorted_wrt (<) ns"
        "\<forall>n \<in> set ns. next_count (patient_counter st1) \<le> n"
      by blast
    have gt: "\<forall>n \<in> set ns. ?n < n" using ns(3) c1 next_count_grows [of ?n] by auto
    have "ids = map patient_id_of (?n # ns)" using ids pid ns(1) by simp
    moreover have "sorted_wrt (<) (?n # ns)" using ns(2) gt by simp
    moreover have "\<forall>n \<in> set (?n # ns). ?n \<le> n" using gt by auto
    ultimately show ?thesis by blast
  qed
qed

text \<open>
  Claim C3. Run any sequence of reservation attempts, successful or not, from any store.
  The identifiers returned by the successful ones are, in the order of issue, \<open>P\<close>
  followed by numbers that strictly increase; all of them lie above the counter the run
  started from, and no identifier occurs twice. An attempt that fails issues nothing and
  leaves the counter as it was, so the numbers stay increasing across failures.
\<close>

theorem patient_ids_increasing:
  assumes "run_attempts attempts st = (st', ids)"
  shows "\<exists>ns. ids = map patient_id_of ns \<and> map patient_number ids = map Some ns \<and>
              sorted_wrt (<) ns \<and> distinct ids \<and>
              (\<forall>n \<in> set ns. next_count (patient_counter st) \<le> n) \<and>
              (\<forall>c. patient_counter st = Some c \<longrightarrow> (\<forall>n \<in> set ns. c < n))"
proof -
  from run_attempts_numbers [OF assms] obtain ns where
    ids: "ids = map patient_id_of ns" and srt: "sorted_wrt (<) ns"
    and low: "\<forall>n \<in> set ns. next_count (patient_counter st) \<le> n"
    by blast
  have num: "map patient_number ids = map Some ns"
    unfolding ids by (induction ns) (simp_all add: patient_number_id)
  have dn: "distinct ns" using srt by (simp add: strict_sorted_iff)
  have inj: "a = b" if h: "patient_id_of a = patient_id_of b" for a b
  proof -
    have "patient_number (patient_id_of a) = patient_number (patient_id_of b)"
      using h by (rule arg_cong)
    then show ?thesis by (simp only: patient_number_id option.inject)
  qed
  have "inj_on patient_id_of (set ns)" by (rule inj_onI) (rule inj)
  then have dist: "distinct ids" unfolding ids using dn by (simp only: distinct_map simp_thms)
  have above: "\<forall>c. patient_counter st = Some c \<longrightarrow> (\<forall>n \<in> set ns. c < n)"
  proof (intro allI impI ballI)
    fix c n assume c: "patient_counter st = Some c" and n: "n \<in> set ns"
    have "next_count (Some c) \<le> n" using low n unfolding c by blast
    then show "c < n" using next_count_grows [of c] by linarith
  qed
  show ?thesis
    by (rule exI [of _ ns]) (intro conjI; fact)
qed

theorem patient_ids_increasing_witness:
  "snd (run_attempts mixed_attempts empty_store) = map patient_id_of [1001, 1002] \<and>
   map patient_number (snd (run_attempts mixed_attempts empty_store)) = map Some [1001, 1002] \<and>
   distinct (snd (run_attempts mixed_attempts empty_store))"
proof -
  have i: "snd (run_attempts mixed_attempts empty_store) = map patient_id_of [1001, 1002]"
    by code_simp
  obtain ns where
    ns: "snd (run_attempts mixed_attempts empty_store) = map patient_id_of ns"
      "map patient_number (snd (run_attempts mixed_attempts empty_store)) = map Some ns"
      "distinct (snd (run_attempts mixed_attempts empty_store))"
    using patient_ids_increasing [OF surjective_pairing, of mixed_attempts empty_store]
    by blast
  have "map patient_number (snd (run_attempts mixed_attempts empty_store)) =
     map Some [1001, 1002]"
    by (simp only: i) (simp add: patient_number_id)
  then show ?thesis using i ns(3) by simp
qed

subsection \<open>Atomicity of the reservation\<close>

text \<open>
  In \<open>backend/webhook.js\<close> the identifier is generated inside the slot transaction: a
  failed attempt returns no new store at all, and a successful one has written the
  counter, the patient record and the ledger entry together.
\<close>

lemma webhook_attempt_all_or_nothing:
  assumes "attemptRegistration t d st = Inr (st', pid)"
  shows "patient_counter st' = Some (next_count (patient_counter st)) \<and>
         pid = patient_id_of (next_count (patient_counter st)) \<and>
         (\<exists>p. patients st' pid = Some p \<and> PatientID p = pid \<and>
              pid \<in> set (slot_patients_of st' (patient_key p))) \<and>
         registration_states st' = registration_states st"
  by (rule attemptRegistration_Inr [OF assms])
     (simp add: patient_id_of_def new_patient_def new_slot_def patient_key_def
        slot_patients_of_def)

lemma webhook_failed_step_keeps_ledger:
  assumes "session_dept s = Some (dep, dept)"
    and "time_answer e (dept_times dept) text = Some tm"
    and "attemptRegistration (now e) ((data s)\<lparr>registrationTime := Some tm\<rparr>) st = Inl err"
  shows "patient_counter (db (step_registrationTime e sender text s st)) = patient_counter st \<and>
         patients (db (step_registrationTime e sender text s st)) = patients st \<and>
         appointments (db (step_registrationTime e sender text s st)) = appointments st"
  using assms by (simp add: step_registrationTime_def reply_def setState_def)

text \<open>
  Claim C2, at the failing input. In the Cloud Functions variant an eleventh request for
  a slot that ten bookings have filled is refused with \<open>Slot full\<close>, and yet the counter
  has moved from 1010 to 1011: the identifier \<open>P1010\<close> is used up with no patient record
  and no ledger entry for it.
\<close>

theorem functions_variant_counter_without_patient:
  "patient_counter ten_bookings_functions = Some 1010 \<and>
   slot_count_of ten_bookings_functions (slot_id ''Cardiology'' ''2025-12-01'' ''10:00'') = 10 \<and>
   snd (attemptRegistration_functions 0 complete_request ten_bookings_functions) =
     Inl ''Slot full for Cardiology at 10:00 on 2025-12-01.'' \<and>
   patient_counter (fst (attemptRegistration_functions 0 complete_request ten_bookings_functions)) =
     Some 1011 \<and>
   patients (fst (attemptRegistration_functions 0 complete_request ten_bookings_functions))
     ''P1010'' = None"
proof -
  have c: "patient_counter ten_bookings_functions = Some 1010" by code_simp
  have s: "slot_count_of ten_bookings_functions (slot_id ''Cardiology'' ''2025-12-01'' ''10:00'') = 10"
    by code_simp
  have p: "patients ten_bookings_functions ''P1010'' = None" by code_simp
  have l: "dept_lookup ''Cardiology'' = Some \<lparr>times = (''09:00'', ''12:00''), capacity = 10\<rparr>"
    by (simp add: dept_lookup_def departmentSlots_def)
  have n: "show_int 1010 = ''1010''" by code_simp
  have r: "attemptRegistration_functions 0 complete_request ten_bookings_functions =
           (ten_bookings_functions\<lparr>patient_counter := Some 1011\<rparr>,
            Inl ''Slot full for Cardiology at 10:00 on 2025-12-01.'')"
    using s by (simp add: attemptRegistration_functions_def complete_request_def l c
        generatePatientId_functions_def runTransaction_def slot_tx_functions_def
        or_undefined_def slot_count_of_def Let_def split: option.splits)
  show ?thesis using c s p by (simp add: r)
qed

subsection \<open>Bootstrap from free text\<close>

lemma processMessage_no_step:
  assumes "\<not> isGreeting (trim raw)" and "getState (now e) sender st = (s0, st1)"
    and "\<not> truthy (step s0)"
  shows "processMessage e sender raw st = nlp_bootstrap e sender (trim raw) st1"
  using assms by (simp add: processMessage_def)

text \<open>
  Claim C9, as the code has it. A message that is not a greeting, reaches a sender with no
  active step, does not contain the start phrase and lets at least one extractor find a
  value, is saved as a session at step \<open>firstName\<close> whose data are the extracted values.
  When phone, department, date, time and first name are not all there, nothing else
  happens: the first name is asked for, whichever fields were filled, and no booking is
  attempted. When all five are there the booking is attempted at once: on success the
  session is removed from the store the reservation produced, on failure the saved session
  stays at \<open>firstName\<close>.
\<close>

theorem nlp_prefill_enters_firstName:
  assumes "\<not> isGreeting (trim raw)" and "getState (now e) sender st = (s0, st1)"
    and "\<not> truthy (step s0)"
    and "\<not> str_includes (toLowerCase (trim raw)) ''patient registration''"
    and "\<not> str_includes (toLowerCase (trim raw)) ''register me''"
    and "any_field_detected e (trim raw)"
  shows "let d = prefill e (trim raw);
             st2 = st1\<lparr>registration_states := (registration_states st1)(sender \<mapsto>
                      \<lparr>step = Some ''firstName'', data = d, updatedAt = Some (now e)\<rparr>)\<rparr>
         in (\<not> enough_info d \<longrightarrow>
               processMessage e sender raw st =
                 \<lparr>db = st2,
                  sent = [''Let's continue your registration. What's your *First Name*?''],
                  thrown = None\<rparr>) \<and>
            (enough_info d \<longrightarrow>
               (case attemptRegistration (now e) d st2 of
                  Inr (st3, pid) \<Rightarrow> db (processMessage e sender raw st) = resetState sender st3
                | Inl err \<Rightarrow>
                    processMessage e sender raw st =
                      \<lparr>db = st2,
                       sent = [err @ ''. Let's continue step-by-step. What's your first name?''],
                       thrown = None\<rparr>))"
proof -
  have pm: "processMessage e sender raw st = nlp_bootstrap e sender (trim raw) st1"
    using assms(1-3) by (rule processMessage_no_step)
  show ?thesis
    unfolding pm Let_def
    using assms(4-6)
    by (auto simp: nlp_bootstrap_def setState_def reply_def Let_def split: sum.splits)
qed

theorem nlp_prefill_enters_firstName_witness:
  "\<not> isGreeting (trim ''my name is John Smith'') \<and>
   getState (now sample_env) other_sender empty_store = (blank_state, empty_store) \<and>
   any_field_detected sample_env (trim ''my name is John Smith'') \<and>
   \<not> enough_info (prefill sample_env (trim ''my name is John Smith'')) \<and>
   processMessage sample_env other_sender ''my name is John Smith'' empty_store =
     \<lparr>db = empty_store\<lparr>registration_states := (registration_states empty_store)(other_sender \<mapsto>
              \<lparr>step = Some ''firstName'',
               data = prefill sample_env (trim ''my name is John Smith''),
               updatedAt = Some (now sample_env)\<rparr>)\<rparr>,
      sent = [''Let's continue your registration. What's your *First Name*?''],
      thrown = None\<rparr>"
proof -
  have a: "\<not> isGreeting (trim ''my name is John Smith'')" by code_simp
  have b: "getState (now sample_env) other_sender empty_store = (blank_state, empty_store)"
    by (simp add: getState_def empty_store_def)
  have c: "\<not> truthy (step blank_state)" by (simp add: blank_state_def truthy_def)
  have d: "\<not> str_includes (toLowerCase (trim ''my name is John Smith'')) ''patient registration''"
    by code_simp
  have f: "\<not> str_includes (toLowerCase (trim ''my name is John Smith'')) ''register me''"
    by code_simp
  have g: "any_field_detected sample_env (trim ''my name is John Smith'')" by code_simp
  have h: "\<not> enough_info (prefill sample_env (trim ''my name is John Smith''))" by code_simp
  show ?thesis
    using nlp_prefill_enters_firstName [OF a b c d f g] a b g h by (simp add: Let_def)
qed

text \<open>
  The claim as stated fails: from \<open>my name is John Smith\<close> the first and the last name are
  extracted and saved, the first field without a value is the gender, and the session is
  nevertheless put at step \<open>firstName\<close> and the first name is asked for again.
\<close>

theorem prefilled_name_is_asked_again:
  "firstName (prefill sample_env ''my name is John Smith'') = Some ''John'' \<and>
   lastName (prefill sample_env ''my name is John Smith'') = Some ''Smith'' \<and>
   spec_first_unfilled_step (prefill sample_env ''my name is John Smith'') = Some ''gender'' \<and>
   map_option step (registration_states
     (db (processMessage sample_env other_sender ''my name is John Smith'' empty_store))
     other_sender) = Some (Some ''firstName'') \<and>
   map_option (firstName \<circ> data) (registration_states
     (db (processMessage sample_env other_sender ''my name is John Smith'' empty_store))
     other_sender) = Some (Some ''John'') \<and>
   sent (processMessage sample_env other_sender ''my name is John Smith'' empty_store) =
     [''Let's continue your registration. What's your *First Name*?'']"
  by code_simp

subsection \<open>The prompt for the time\<close>

lemma processMessage_live_step:
  assumes "registration_states st sender = Some s" and "live (now e) s"
    and "truthy (step s)" and "\<not> isGreeting (trim raw)"
  shows "processMessage e sender raw st = step_flow e sender (trim raw) s st"
  using assms getState_live [OF assms(1,2)] by (simp add: processMessage_def)




lemma times_prompt_store:
  "appointments st' = appointments st \<Longrightarrow>
   times_prompt st' table dep dept date = times_prompt st table dep dept date"
  by (simp add: times_prompt_def time_line_def slot_count_of_def cong: map_cong)


lemma registrationDate_accepts:
  assumes "registration_states st sender = Some s" and "live (now e) s"
    and "step s = Some ''registrationDate''" and "\<not> isGreeting (trim raw)"
    and "chrono_parseDate e (trim raw) = Some parsed"
    and "\<not> js_str_le (iso_day parsed) (today e)"
    and "session_dept s = Some (dep, dept)"
  shows "processMessage e sender raw st =
     (let st1 = setState (now e) sender
                  (s\<lparr>step := Some ''registrationTime'',
                     data := (data s)\<lparr>registrationDate := Some (iso_day parsed)\<rparr>\<rparr>) st
      in case doctorLimits e of
           Some table \<Rightarrow> reply st1 (times_prompt st table dep dept (iso_day parsed))
         | None \<Rightarrow>
             if dept_times dept = []
             then reply st1 (times_prompt st (\<lambda>_. None) dep dept (iso_day parsed))
             else throw st1 ''ReferenceError: doctorLimits is not defined'')"
proof -
  have t: "truthy (step s)" using assms(3) by (simp add: truthy_def)
  have pm: "processMessage e sender raw st = step_registrationDate e sender (trim raw) s st"
    using processMessage_live_step [OF assms(1,2) t assms(4)] assms(3)
    by (simp add: step_flow_def)
  have sd: "session_dept (s\<lparr>step := Some ''registrationTime'',
                     data := (data s)\<lparr>registrationDate := Some (iso_day parsed)\<rparr>\<rparr>) = Some (dep, dept)"
    using assms(7) by (simp add: session_dept_def)
  have ap: "appointments (setState t' sender s' st) = appointments st" for t' s'
    by (simp add: setState_def)
  have empty: "times_prompt st (\<lambda>_. None) dep dept date = times_prompt st table dep dept date"
    if "dept_times dept = []" for table date
    using that by (simp add: times_prompt_def)
  show ?thesis
  proof (cases "doctorLimits e")
    case None
    then show ?thesis
      unfolding pm step_registrationDate_def Let_def
      using assms(5,6) sd by (simp add: times_prompt_store [OF ap])
  next
    case (Some table)
    show ?thesis
    proof (cases "dept_times dept = []")
      case True
      then show ?thesis
        unfolding pm step_registrationDate_def Let_def
        using assms(5,6) sd Some empty [OF True, of "iso_day parsed" table]
        by (simp add: times_prompt_store [OF ap])
    next
      case False
      then show ?thesis
        unfolding pm step_registrationDate_def Let_def
        using assms(5,6) sd Some by (simp add: times_prompt_store [OF ap])
    qed
  qed
qed

text \<open>
  With the table \<open>doctorLimits\<close> undeclared, as the module stands, a valid future date for a
  department of the catalog saves the step \<open>registrationTime\<close> and then throws: no prompt
  is sent.
\<close>

lemma registrationDate_prompt_as_shipped:
  assumes "registration_states st sender = Some s" and "live (now e) s"
    and "step s = Some ''registrationDate''" and "\<not> isGreeting (trim raw)"
    and "chrono_parseDate e (trim raw) = Some parsed"
    and "\<not> js_str_le (iso_day parsed) (today e)"
    and "session_dept s = Some (dep, dept)" and "dept_times dept \<noteq> []"
    and "doctorLimits e = None"
  shows "sent (processMessage e sender raw st) = [] \<and>
         thrown (processMessage e sender raw st) = Some ''ReferenceError: doctorLimits is not defined'' \<and>
         map_option step (registration_states (db (processMessage e sender raw st)) sender) =
           Some (Some ''registrationTime'')"
  unfolding registrationDate_accepts [OF assms(1-7)]
  using assms(8,9) by (simp add: Let_def throw_def setState_def)


lemma full_slot_reachable:
  "appointments (fst (run_attempts (replicate 10 (0, cardiology_request)) empty_store))
     ''Cardiology_2025-12-01_10:00'' =
   Some (full_slot\<lparr>slot_patients := slot_patients full_slot\<rparr>)"
  by code_simp



subsection \<open>One-shot booking and the step-by-step conversation\<close>


lemma with_session_lookup [simp]:
  "registration_states (with_session st sender s) sender = Some s"
  by (simp add: with_session_def)

lemma with_session_twice [simp]:
  "with_session (with_session st sender s) sender s' = with_session st sender s'"
  by (simp add: with_session_def)

lemma with_session_ledger [simp]:
  "appointments (with_session st sender s) = appointments st"
  "patients (with_session st sender s) = patients st"
  "patient_counter (with_session st sender s) = patient_counter st"
  by (simp_all add: with_session_def)

lemma slot_count_of_with_session [simp]:
  "slot_count_of (with_session st sender s) sid = slot_count_of st sid"
  by (simp add: slot_count_of_def)






















subsection \<open>The Cloud Functions variant\<close>

text \<open>On every window of the catalog the two slot generators agree.\<close>

lemma generateTimeSlots_catalog:
  "\<forall>(name, dept) \<in> set departmentSlots.
     generateTimeSlots (fst (times dept)) (snd (times dept)) =
     hoursBetween (fst (times dept)) (snd (times dept))"
  by code_simp

lemma ledger_ok_counter:
  assumes "ledger_ok st"
  shows "ledger_ok (st\<lparr>patient_counter := c\<rparr>)"
proof -
  have a: "appointments (st\<lparr>patient_counter := c\<rparr>) = appointments st"
    and p: "patients (st\<lparr>patient_counter := c\<rparr>) = patients st"
    by simp_all
  show ?thesis using assms unfolding ledger_ok_def a p .
qed

lemma attemptRegistration_functions_cases:
  obtains
    (invalid) "attemptRegistration_functions t d st = (st, Inl ''Invalid department.'')"
  | (aborted) err where
      "attemptRegistration_functions t d st =
         (st\<lparr>patient_counter := Some (current_count st + 1)\<rparr>, Inl err)"
  | (success) dep dept date time where
      "dept_lookup dep = Some dept"
      "slot_count_of st (slot_id dep date time) < capacity dept"
      "attemptRegistration_functions t d st =
         (st\<lparr>patient_counter := Some (current_count st + 1),
             patients := (patients st)(patient_id_of (current_count st) \<mapsto>
               new_patient t d (patient_id_of (current_count st)) dep date time),
             appointments := (appointments st)(slot_id dep date time \<mapsto>
               new_slot st dept (patient_id_of (current_count st)) dep date time)\<rparr>,
          Inr (patient_id_of (current_count st)))"
proof (cases "department d")
  case None
  then show ?thesis using invalid by (simp add: attemptRegistration_functions_def)
next
  case (Some dep)
  show ?thesis
  proof (cases "dept_lookup dep")
    case None
    then show ?thesis using invalid Some by (simp add: attemptRegistration_functions_def)
  next
    case dl: (Some dept)
    let ?st1 = "st\<lparr>patient_counter := Some (current_count st + 1)\<rparr>"
    let ?pid = "patient_id_of (current_count st)"
    have gen: "generatePatientId_functions st = (?st1, ?pid)"
      by (simp add: generatePatientId_functions_def current_count_def patient_id_of_def Let_def)
    show ?thesis
    proof (cases "runTransaction (slot_tx_functions t d dep dept ?pid) ?st1")
      case (Inl err)
      then show ?thesis using aborted [of err] Some dl gen
        by (simp add: attemptRegistration_functions_def)
    next
      case (Inr r)
      then obtain date time where
        dt: "registrationDate d = Some date" "registrationTime d = Some time"
        and free: "slot_count_of st (slot_id dep date time) < capacity dept"
        and r: "fst r = ?st1\<lparr>patients := (patients st)(?pid \<mapsto>
                         new_patient t d ?pid dep date time),
                       appointments := (appointments st)(slot_id dep date time \<mapsto>
                         new_slot st dept ?pid dep date time)\<rparr>"
        by (auto simp: runTransaction_def slot_tx_functions_def all_defined_def
            or_undefined_def slot_count_of_def slot_patients_of_def new_patient_def
            new_slot_def Let_def split: if_splits option.splits)
      show ?thesis
        using success [OF dl free] Some dl gen Inr r by (simp add: attemptRegistration_functions_def)
    qed
  qed
qed

text \<open>
  In the Cloud Functions variant too the ledger invariant is kept by every attempt, so
  after any sequence of attempts no slot of the catalog holds more patient records than
  its capacity.
\<close>

lemma ledger_ok_step_functions:
  assumes "ledger_ok st"
  shows "ledger_ok (fst (attemptRegistration_functions t d st))"
proof (cases t d st rule: attemptRegistration_functions_cases)
  case invalid
  then show ?thesis using assms by simp
next
  case (aborted err)
  then show ?thesis using ledger_ok_counter [OF assms] by simp
next
  case (success dep dept date time)
  have "patient_key (new_patient t d (patient_id_of (current_count st)) dep date time) =
        slot_id dep date time"
    by (simp add: patient_key_def new_patient_def)
  from ledger_ok_booking [OF assms success(1,2) this]
  show ?thesis using success(3) by simp
qed

lemma ledger_ok_run_functions:
  "ledger_ok st \<Longrightarrow> ledger_ok (run_attempts_functions attempts st)"
proof (induction attempts arbitrary: st)
  case Nil
  then show ?case by simp
next
  case (Cons a attempts)
  obtain t d where a: "a = (t, d)" by (cases a)
  show ?case using Cons.IH [OF ledger_ok_step_functions [OF Cons.prems, of t d]] a by simp
qed

lemma capacity_invariant_functions:
  assumes "ledger_ok st" and "dept_lookup dep = Some dept"
  shows "int (card (booked (run_attempts_functions attempts st) dep date time)) \<le> capacity dept"
  using ledger_ok_bound [OF ledger_ok_run_functions [OF assms(1)] assms(2), of attempts date time]
  by linarith

text \<open>
  Its identifiers are \<open>P\<close> followed by the counter values, which strictly increase along any
  sequence of attempts; a failed attempt uses a number up, so none comes back.
\<close>

lemma current_count_step_functions:
  "current_count st \<le> current_count (fst (attemptRegistration_functions t d st))"
  by (cases t d st rule: attemptRegistration_functions_cases) (simp_all add: current_count_def)

lemma issued_functions_increasing:
  "\<exists>ns. issued_functions attempts st = map patient_id_of ns \<and> sorted_wrt (<) ns \<and>
        (\<forall>n \<in> set ns. current_count st \<le> n)"
proof (induction attempts arbitrary: st)
  case Nil
  show ?case by simp
next
  case (Cons a attempts)
  obtain t d where a: "a = (t, d)" by (cases a)
  show ?case
  proof (cases t d st rule: attemptRegistration_functions_cases)
    case invalid
    then show ?thesis using Cons.IH [of st] a by simp
  next
    case (aborted err)
    let ?st1 = "st\<lparr>patient_counter := Some (current_count st + 1)\<rparr>"
    from Cons.IH [of ?st1] obtain ns where
      ns: "issued_functions attempts ?st1 = map patient_id_of ns" "sorted_wrt (<) ns"
        "\<forall>n \<in> set ns. current_count ?st1 \<le> n"
      by blast
    have "\<forall>n \<in> set ns. current_count st \<le> n" using ns(3) by (auto simp: current_count_def)
    then show ?thesis using ns(1,2) aborted a by auto
  next
    case (success dep dept date time)
    let ?st1 = "fst (attemptRegistration_functions t d st)"
    have c1: "current_count ?st1 = current_count st + 1"
      by (simp add: success(3) current_count_def)
    from Cons.IH [of ?st1] obtain ns where
      ns: "issued_functions attempts ?st1 = map patient_id_of ns" "sorted_wrt (<) ns"
        "\<forall>n \<in> set ns. current_count ?st1 \<le> n"
      by blast
    have gt: "\<forall>n \<in> set ns. current_count st < n" using ns(3) c1 by auto
    have "issued_functions (a # attempts) st = map patient_id_of (current_count st # ns)"
      using ns(1) a success(3) by simp
    moreover have "sorted_wrt (<) (current_count st # ns)" using ns(2) gt by simp
    moreover have "\<forall>n \<in> set (current_count st # ns). current_count st \<le> n" using gt by auto
    ultimately show ?thesis by blast
  qed
qed

end
